theory Spec2Isabelle
  imports Complex_Main "HOL-Library.Product_Lexorder"
begin

section \<open>Errors and requests\<close>

text \<open>
  Every exception and every early error response of the modelled views is a value of
  \<open>error\<close>. \<open>NotAuthenticated\<close> is the rejection by the permission class before the
  handler runs; \<open>BadRequest\<close> is an explicit HTTP 400 response; \<open>NotFound\<close> is the 404 of
  \<open>get_object\<close>; \<open>ValidationError\<close> is the 400 of a serializer;
  \<open>MultipleObjectsReturned\<close>, \<open>DoesNotExist\<close> and \<open>IntegrityError\<close> are the
  exceptions of the ORM, \<open>NegativeIndexing\<close> is the refusal of a queryset to be sliced
  with a negative bound, and \<open>RecursionError\<close>, \<open>ImportError\<close> and \<open>AttributeError\<close> are
  Python's.
\<close>

datatype error =
    NotAuthenticated
  | BadRequest string
  | NotFound
  | MultipleObjectsReturned
  | IntegrityError
  | ValidationError string
  | DoesNotExist
  | RecursionError
  | NegativeIndexing
  | ImportError
  | AttributeError

record user =
  user_id :: nat
  is_staff :: bool

section \<open>interactions/models.py: Like, Dislike, Bookmark\<close>

text \<open>
  Like, Dislike and Bookmark have the same columns: the primary key, the user, the
  content type, the object id (a CharField) and \<open>created_at\<close>. The record is extensible,
  so Review below adds its own columns to the same shape.
\<close>

record generic_row =
  pk :: nat
  owner :: nat
  content_type :: nat
  object_id :: string
  created_at :: int

record news_article =
  article_id :: string
  slug :: string
  status :: string
  likes_count :: nat
  bookmarks_count :: nat

record review = generic_row +
  rating :: int
  title :: string
  comment :: string
  is_approved :: bool
  updated_at :: int

record interactions_db =
  content_types :: "nat list"
  likes :: "generic_row list"
  dislikes :: "generic_row list"
  bookmarks :: "generic_row list"
  reviews :: "review list"
  articles :: "news_article list"

text \<open>\<open>Model.objects.filter(user=u, content_type=ct, object_id=oid)\<close>.\<close>

definition matches :: "nat \<Rightarrow> nat \<Rightarrow> string \<Rightarrow> 'a generic_row_scheme \<Rightarrow> bool" where
  "matches u ct oid r \<longleftrightarrow> owner r = u \<and> content_type r = ct \<and> object_id r = oid"

definition filter_rows ::
  "nat \<Rightarrow> nat \<Rightarrow> string \<Rightarrow> 'a generic_row_scheme list \<Rightarrow> 'a generic_row_scheme list" where
  "filter_rows u ct oid rows = filter (matches u ct oid) rows"

text \<open>The key the database gives a new row: one more than every key of the table.\<close>

definition fresh_pk :: "'a generic_row_scheme list \<Rightarrow> nat" where
  "fresh_pk rows = Suc (fold max (map pk rows) 0)"

text \<open>
  \<open>Model.objects.get_or_create(user=u, content_type=ct, object_id=oid)\<close>: the row, whether
  it was created, and the table afterwards. Two matching rows raise
  \<open>MultipleObjectsReturned\<close>.
\<close>

definition get_or_create ::
  "int \<Rightarrow> nat \<Rightarrow> nat \<Rightarrow> string \<Rightarrow> generic_row list
    \<Rightarrow> error + (generic_row \<times> bool \<times> generic_row list)" where
  "get_or_create now u ct oid rows =
     (case filter_rows u ct oid rows of
        [] \<Rightarrow>
          (let r = \<lparr>pk = fresh_pk rows, owner = u, content_type = ct, object_id = oid,
                    created_at = now\<rparr>
           in Inr (r, True, rows @ [r]))
      | [r] \<Rightarrow> Inr (r, False, rows)
      | _ \<Rightarrow> Inl MultipleObjectsReturned)"

text \<open>\<open>instance.delete()\<close> removes the row with the instance's primary key.\<close>

definition delete_instance :: "generic_row \<Rightarrow> generic_row list \<Rightarrow> generic_row list" where
  "delete_instance r rows = filter (\<lambda>x. pk x \<noteq> pk r) rows"

text \<open>\<open>Model.objects.filter(user=u, content_type=ct, object_id=oid).delete()\<close>.\<close>

definition filter_delete :: "nat \<Rightarrow> nat \<Rightarrow> string \<Rightarrow> generic_row list \<Rightarrow> generic_row list" where
  "filter_delete u ct oid rows = filter (\<lambda>r. \<not> matches u ct oid r) rows"

section \<open>interactions/views.py: the toggle views\<close>

text \<open>
  The body of a toggle request: \<open>request.user\<close> (\<open>None\<close> for an anonymous request) and
  the two entries of \<open>request.data\<close>. Python's \<open>not x\<close> holds for a missing entry, for the
  number 0 and for the empty string.
\<close>

record toggle_request =
  req_user :: "user option"
  data_content_type :: "nat option"
  data_object_id :: "string option"

definition falsy_nat :: "nat option \<Rightarrow> bool" where
  "falsy_nat x \<longleftrightarrow> (case x of None \<Rightarrow> True | Some n \<Rightarrow> n = 0)"

definition falsy_str :: "string option \<Rightarrow> bool" where
  "falsy_str x \<longleftrightarrow> (case x of None \<Rightarrow> True | Some s \<Rightarrow> s = [])"

text \<open>
  The checks every toggle view opens with: authentication (the permission class), the
  two required entries, and \<open>ContentType.objects.get(id=...)\<close>.
\<close>

definition resolve_target ::
  "toggle_request \<Rightarrow> interactions_db \<Rightarrow> error + (nat \<times> nat \<times> string)" where
  "resolve_target req db =
     (case req_user req of
        None \<Rightarrow> Inl NotAuthenticated
      | Some u \<Rightarrow>
          if falsy_nat (data_content_type req) \<or> falsy_str (data_object_id req)
          then Inl (BadRequest ''content_type and object_id are required'')
          else if the (data_content_type req) \<notin> set (content_types db)
          then Inl (BadRequest ''Invalid content_type'')
          else Inr (user_id u, the (data_content_type req), the (data_object_id req)))"

text \<open>
  \<open>LikeToggleView.post\<close>. The result is the \<open>liked\<close> flag of the response and the
  database afterwards.
\<close>

definition LikeToggleView_post ::
  "int \<Rightarrow> toggle_request \<Rightarrow> interactions_db \<Rightarrow> error + (bool \<times> interactions_db)" where
  "LikeToggleView_post now req db =
     (case resolve_target req db of
        Inl e \<Rightarrow> Inl e
      | Inr (u, ct, oid) \<Rightarrow>
          (case get_or_create now u ct oid (likes db) of
             Inl e \<Rightarrow> Inl e
           | Inr (like, created, likes') \<Rightarrow>
               if \<not> created
               then Inr (False, db\<lparr>likes := delete_instance like likes'\<rparr>)
               else Inr (True, db\<lparr>likes := likes',
                                    dislikes := filter_delete u ct oid (dislikes db)\<rparr>)))"

text \<open>\<open>DislikeToggleView.post\<close>.\<close>

definition DislikeToggleView_post ::
  "int \<Rightarrow> toggle_request \<Rightarrow> interactions_db \<Rightarrow> error + (bool \<times> interactions_db)" where
  "DislikeToggleView_post now req db =
     (case resolve_target req db of
        Inl e \<Rightarrow> Inl e
      | Inr (u, ct, oid) \<Rightarrow>
          (case get_or_create now u ct oid (dislikes db) of
             Inl e \<Rightarrow> Inl e
           | Inr (dislike, created, dislikes') \<Rightarrow>
               if \<not> created
               then Inr (False, db\<lparr>dislikes := delete_instance dislike dislikes'\<rparr>)
               else Inr (True, db\<lparr>dislikes := dislikes',
                                    likes := filter_delete u ct oid (likes db)\<rparr>)))"

text \<open>\<open>BookmarkToggleView.post\<close>.\<close>

definition BookmarkToggleView_post ::
  "int \<Rightarrow> toggle_request \<Rightarrow> interactions_db \<Rightarrow> error + (bool \<times> interactions_db)" where
  "BookmarkToggleView_post now req db =
     (case resolve_target req db of
        Inl e \<Rightarrow> Inl e
      | Inr (u, ct, oid) \<Rightarrow>
          (case get_or_create now u ct oid (bookmarks db) of
             Inl e \<Rightarrow> Inl e
           | Inr (bookmark, created, bookmarks') \<Rightarrow>
               if \<not> created
               then Inr (False, db\<lparr>bookmarks := delete_instance bookmark bookmarks'\<rparr>)
               else Inr (True, db\<lparr>bookmarks := bookmarks'\<rparr>)))"

section \<open>news/views.py: the like action of an article\<close>

text \<open>
  \<open>get_object\<close> of \<open>NewsArticleViewSet\<close>: the queryset holds every article for a staff
  user and the published ones for anyone else, and the article is looked up by slug.
\<close>

definition get_queryset :: "user \<Rightarrow> news_article list \<Rightarrow> news_article list" where
  "get_queryset u arts = (if is_staff u then arts else filter (\<lambda>a. status a = ''published'') arts)"

definition get_object :: "user \<Rightarrow> string \<Rightarrow> news_article list \<Rightarrow> error + news_article" where
  "get_object u sl arts =
     (case filter (\<lambda>a. slug a = sl) (get_queryset u arts) of
        [] \<Rightarrow> Inl NotFound
      | [a] \<Rightarrow> Inr a
      | _ \<Rightarrow> Inl MultipleObjectsReturned)"

text \<open>
  \<open>article.likes_count = F('likes_count') + 1\<close> and \<open>F('likes_count') - 1\<close>, saved with
  \<open>update_fields\<close>: an UPDATE of the one column of the row with the article's key.
  \<open>likes_count\<close> is a PositiveIntegerField, whose column carries the database's check
  that the value is not negative: the decrement of a counter that is 0 raises
  \<open>IntegrityError\<close>.
\<close>

definition increment_likes :: "string \<Rightarrow> news_article list \<Rightarrow> news_article list" where
  "increment_likes aid arts =
     map (\<lambda>a. if article_id a = aid then a\<lparr>likes_count := likes_count a + 1\<rparr> else a) arts"

definition decrement_likes :: "string \<Rightarrow> news_article list \<Rightarrow> error + news_article list" where
  "decrement_likes aid arts =
     (if \<exists>a \<in> set arts. article_id a = aid \<and> likes_count a = 0 then Inl IntegrityError
      else Inr (map (\<lambda>a. if article_id a = aid then a\<lparr>likes_count := likes_count a - 1\<rparr> else a)
                  arts))"

text \<open>
  \<open>NewsArticleViewSet.like\<close>. \<open>news_ct\<close> is the content type that
  \<open>ContentType.objects.get_for_model(NewsArticle)\<close> returns. \<open>NewsArticleViewSet_like_run\<close>
  gives the response (the \<open>liked\<close> flag, or the error) and the database the request
  leaves. The view opens no transaction, so each statement is committed as it runs: when
  the decrement is refused, \<open>like.delete()\<close> has already removed the Like.
\<close>

definition NewsArticleViewSet_like_run ::
  "int \<Rightarrow> nat \<Rightarrow> user option \<Rightarrow> string \<Rightarrow> interactions_db
    \<Rightarrow> (error + bool) \<times> interactions_db" where
  "NewsArticleViewSet_like_run now news_ct ru sl db =
     (case ru of
        None \<Rightarrow> (Inl NotAuthenticated, db)
      | Some u \<Rightarrow>
          (case get_object u sl (articles db) of
             Inl e \<Rightarrow> (Inl e, db)
           | Inr article \<Rightarrow>
               (case get_or_create now (user_id u) news_ct (article_id article) (likes db) of
                  Inl e \<Rightarrow> (Inl e, db)
                | Inr (like, created, likes') \<Rightarrow>
                    if \<not> created
                    then (case decrement_likes (article_id article) (articles db) of
                            Inl e \<Rightarrow> (Inl e, db\<lparr>likes := delete_instance like likes'\<rparr>)
                          | Inr arts' \<Rightarrow>
                              (Inr False, db\<lparr>likes := delete_instance like likes',
                                             articles := arts'\<rparr>))
                    else (Inr True, db\<lparr>likes := likes',
                                       articles := increment_likes (article_id article)
                                                     (articles db)\<rparr>))))"

text \<open>
  The same request as a value of the shape the toggle views have: the error, or the flag
  with the database afterwards.
\<close>

definition NewsArticleViewSet_like ::
  "int \<Rightarrow> nat \<Rightarrow> user option \<Rightarrow> string \<Rightarrow> interactions_db \<Rightarrow> error + (bool \<times> interactions_db)" where
  "NewsArticleViewSet_like now news_ct ru sl db =
     (case NewsArticleViewSet_like_run now news_ct ru sl db of
        (Inl e, db') \<Rightarrow> Inl e
      | (Inr flag, db') \<Rightarrow> Inr (flag, db'))"

definition exists_row :: "nat \<Rightarrow> nat \<Rightarrow> string \<Rightarrow> 'a generic_row_scheme list \<Rightarrow> bool" where
  "exists_row u ct oid rows \<longleftrightarrow> filter_rows u ct oid rows \<noteq> []"

definition both_present :: "nat \<Rightarrow> nat \<Rightarrow> string \<Rightarrow> interactions_db \<Rightarrow> bool" where
  "both_present u ct oid db \<longleftrightarrow> exists_row u ct oid (likes db) \<and> exists_row u ct oid (dislikes db)"

definition new_row :: "int \<Rightarrow> nat \<Rightarrow> nat \<Rightarrow> string \<Rightarrow> generic_row list \<Rightarrow> generic_row" where
  "new_row now u ct oid rows =
     \<lparr>pk = fresh_pk rows, owner = u, content_type = ct, object_id = oid, created_at = now\<rparr>"

text \<open>
  The three kinds of toggle of the interactions app and the view that
  \<open>interactions/urls.py\<close> routes each to; \<open>table\<close> is the table the view works on.
\<close>

datatype kind = Like | Dislike | Bookmark

fun toggle ::
  "kind \<Rightarrow> int \<Rightarrow> toggle_request \<Rightarrow> interactions_db \<Rightarrow> error + (bool \<times> interactions_db)" where
  "toggle Like = LikeToggleView_post"
| "toggle Dislike = DislikeToggleView_post"
| "toggle Bookmark = BookmarkToggleView_post"

fun table :: "kind \<Rightarrow> interactions_db \<Rightarrow> generic_row list" where
  "table Like db = likes db"
| "table Dislike db = dislikes db"
| "table Bookmark db = bookmarks db"

text \<open>One request after another: the second runs on the database the first left.\<close>

definition and_then ::
  "error + (bool \<times> interactions_db) \<Rightarrow> (interactions_db \<Rightarrow> error + (bool \<times> interactions_db))
    \<Rightarrow> error + (bool \<times> interactions_db)" where
  "and_then r f = (case r of Inl e \<Rightarrow> Inl e | Inr (flag, db) \<Rightarrow> f db)"

text \<open>
  A small database for concrete runs: one content type (7, the one of news articles),
  one published article with no likes, and no interaction rows. \<open>reader\<close> is an
  ordinary user and \<open>reader_request\<close> her toggle request for the article.
\<close>

definition reader :: user where
  "reader = \<lparr>user_id = 1, is_staff = False\<rparr>"

definition sample_article :: news_article where
  "sample_article =
     \<lparr>article_id = ''a1'', slug = ''budget'', status = ''published'', likes_count = 0,
      bookmarks_count = 0\<rparr>"

definition sample_db :: interactions_db where
  "sample_db =
     \<lparr>content_types = [7], likes = [], dislikes = [], bookmarks = [], reviews = [],
      articles = [sample_article]\<rparr>"

definition reader_request :: toggle_request where
  "reader_request =
     \<lparr>req_user = Some reader, data_content_type = Some 7, data_object_id = Some ''a1''\<rparr>"

text \<open>The same database after the reader has liked the article through its like action.\<close>

definition sample_db_liked :: interactions_db where
  "sample_db_liked =
     sample_db\<lparr>likes := [\<lparr>pk = 1, owner = 1, content_type = 7, object_id = ''a1'',
                            created_at = 1\<rparr>],
                articles := [sample_article\<lparr>likes_count := 1\<rparr>]\<rparr>"

section \<open>interactions/views.py: reviews\<close>

text \<open>
  The body of a POST to \<open>ReviewListCreateView\<close>. The writable fields of
  \<open>ReviewSerializer\<close> are \<open>content_type\<close>, \<open>object_id\<close>, \<open>rating\<close>, \<open>title\<close> and
  \<open>comment\<close>; \<open>user\<close> and \<open>is_approved\<close> are read-only, so a value sent for them is
  ignored.
\<close>

record review_request =
  rv_user :: "user option"
  rv_content_type :: "nat option"
  rv_object_id :: "string option"
  rv_rating :: "int option"
  rv_title :: "string option"
  rv_comment :: "string option"

record validated_review =
  v_content_type :: nat
  v_object_id :: string
  v_rating :: int
  v_title :: string
  v_comment :: string

text \<open>A character field of a serializer trims the white space around its value.\<close>

definition is_space :: "char \<Rightarrow> bool" where
  "is_space c \<longleftrightarrow> c \<in> set [CHR '' '', CHR 0x09, CHR 0x0A, CHR 0x0B, CHR 0x0C, CHR 0x0D]"

definition strip :: "string \<Rightarrow> string" where
  "strip s = rev (dropWhile is_space (rev (dropWhile is_space s)))"

text \<open>
  \<open>serializer.is_valid\<close>: the fields the model requires are present and not blank, the
  content type exists, the lengths respect \<open>max_length\<close>, and the rating is between 1 and
  5 (the validators of the model field and \<open>validate_rating\<close>).
\<close>

definition is_valid :: "review_request \<Rightarrow> interactions_db \<Rightarrow> error + validated_review" where
  "is_valid req db =
     (case (rv_content_type req, rv_object_id req, rv_rating req, rv_comment req) of
        (Some ct, Some oid, Some rt, Some cm) \<Rightarrow>
          if ct \<notin> set (content_types db) then Inl (ValidationError ''content_type'')
          else if strip oid = [] \<or> 255 < length (strip oid) then Inl (ValidationError ''object_id'')
          else if rt < 1 \<or> 5 < rt then Inl (ValidationError ''Rating must be between 1 and 5'')
          else if 200 < length (strip (case rv_title req of None \<Rightarrow> [] | Some t \<Rightarrow> t))
          then Inl (ValidationError ''title'')
          else if strip cm = [] then Inl (ValidationError ''comment'')
          else Inr \<lparr>v_content_type = ct, v_object_id = strip oid, v_rating = rt,
                    v_title = strip (case rv_title req of None \<Rightarrow> [] | Some t \<Rightarrow> t),
                    v_comment = strip cm\<rparr>
      | _ \<Rightarrow> Inl (ValidationError ''This field is required.''))"

text \<open>
  \<open>Review.objects.create\<close>, as \<open>serializer.save(user=request.user)\<close> runs it. The
  serializer has no validator for \<open>unique_together\<close> (its \<open>user\<close> field is read-only), so
  a second row for the same user, content type and object id reaches the database, whose
  unique constraint raises \<open>IntegrityError\<close> and stores nothing.
\<close>

definition create_review ::
  "int \<Rightarrow> nat \<Rightarrow> validated_review \<Rightarrow> review list \<Rightarrow> error + (review \<times> review list)" where
  "create_review now u v rows =
     (if exists_row u (v_content_type v) (v_object_id v) rows then Inl IntegrityError
      else
        (let r = \<lparr>pk = fresh_pk rows, owner = u, content_type = v_content_type v,
                  object_id = v_object_id v, created_at = now, rating = v_rating v,
                  title = v_title v, comment = v_comment v, is_approved = True,
                  updated_at = now\<rparr>
         in Inr (r, rows @ [r])))"

text \<open>
  The POST of \<open>ReviewListCreateView\<close>: the permission class, \<open>is_valid\<close>, then
  \<open>perform_create\<close>. The result is the response (the created review, or the error) and
  the database afterwards.
\<close>

definition ReviewListCreateView_post ::
  "int \<Rightarrow> review_request \<Rightarrow> interactions_db \<Rightarrow> (error + review) \<times> interactions_db" where
  "ReviewListCreateView_post now req db =
     (case rv_user req of
        None \<Rightarrow> (Inl NotAuthenticated, db)
      | Some u \<Rightarrow>
          (case is_valid req db of
             Inl e \<Rightarrow> (Inl e, db)
           | Inr v \<Rightarrow>
               (case create_review now (user_id u) v (reviews db) of
                  Inl e \<Rightarrow> (Inl e, db)
                | Inr (r, rows') \<Rightarrow> (Inr r, db\<lparr>reviews := rows'\<rparr>))))"

text \<open>The constraint \<open>unique_together = ['user', 'content_type', 'object_id']\<close> on a table.\<close>

definition unique_together :: "'a generic_row_scheme list \<Rightarrow> bool" where
  "unique_together rows \<longleftrightarrow>
     distinct (map (\<lambda>r. (owner r, content_type r, object_id r)) rows)"

section \<open>interactions/serializers.py: ReviewSerializer, InteractionStatsSerializer\<close>

text \<open>
  What \<open>ReviewSerializer\<close> writes for a review: the entries of \<open>Meta.fields\<close> that are read
  from the row itself. \<open>user_username\<close> and \<open>content_type_name\<close>, read from the related
  rows, are left out. The entry \<open>user\<close> is the key of the user, as a
  \<open>PrimaryKeyRelatedField\<close> writes it.
\<close>

record review_data =
  rd_id :: nat
  rd_user :: nat
  rd_user_id :: nat
  rd_content_type :: nat
  rd_object_id :: string
  rd_rating :: int
  rd_title :: string
  rd_comment :: string
  rd_is_approved :: bool
  rd_created_at :: int
  rd_updated_at :: int

text \<open>
  What a \<open>ReviewSerializer\<close> is given to serialise: a \<open>Review\<close> of the database, or a
  dictionary, as \<open>ReviewSerializer(...).data\<close> is one.
\<close>

datatype review_source = Model review | Data review_data

text \<open>
  \<open>PrimaryKeyRelatedField.to_representation\<close> of the field \<open>user\<close> returns \<open>value.pk\<close>.
  Read from a \<open>Review\<close>, the value is an object that has the key of the user as \<open>pk\<close>.
  Read from a dictionary, the value is the entry \<open>user\<close>, an integer, and an integer has
  no attribute \<open>pk\<close>: \<open>AttributeError\<close>, raised outside the \<open>try\<close> of \<open>get_attribute\<close>.
\<close>

fun PrimaryKeyRelatedField_to_representation :: "review_source \<Rightarrow> error + nat" where
  "PrimaryKeyRelatedField_to_representation (Model r) = Inr (owner r)"
| "PrimaryKeyRelatedField_to_representation (Data d) = Inl AttributeError"

text \<open>
  \<open>ReviewSerializer.to_representation\<close>: the fields in the order of \<open>Meta.fields\<close>; \<open>id\<close>
  is read from either source, \<open>user\<close> comes second.
\<close>

definition ReviewSerializer_to_representation :: "review_source \<Rightarrow> error + review_data" where
  "ReviewSerializer_to_representation src =
     (case PrimaryKeyRelatedField_to_representation src of
        Inl e \<Rightarrow> Inl e
      | Inr uid \<Rightarrow>
          (case src of
             Model r \<Rightarrow>
               Inr \<lparr>rd_id = pk r, rd_user = uid, rd_user_id = owner r,
                    rd_content_type = content_type r, rd_object_id = object_id r,
                    rd_rating = rating r, rd_title = title r, rd_comment = comment r,
                    rd_is_approved = is_approved r, rd_created_at = created_at r,
                    rd_updated_at = updated_at r\<rparr>
           | Data d \<Rightarrow> Inr d))"

section \<open>interactions/views.py: InteractionStatsView\<close>

text \<open>
  The average is a Python float in the source. A float is a rational number, so the
  statistics carry rationals. What the source leaves to the database and to Python are
  two parameters of the view: \<open>fl\<close>, the float the database returns for an exact mean, and
  \<open>rnd\<close>, Python's \<open>round(x, 2)\<close> on a float.
\<close>

record stats_request =
  st_user :: "user option"
  st_content_type :: "nat option"
  st_object_id :: "string option"

record interaction_stats =
  stats_likes_count :: nat
  stats_dislikes_count :: nat
  reviews_count :: nat
  average_rating :: rat
  user_liked :: bool
  user_disliked :: bool
  user_bookmarked :: bool
  user_review :: "review_data option"

text \<open>\<open>Model.objects.filter(content_type=ct, object_id=oid)\<close>.\<close>

definition for_target :: "nat \<Rightarrow> string \<Rightarrow> 'a generic_row_scheme list \<Rightarrow> 'a generic_row_scheme list" where
  "for_target ct oid rows = filter (\<lambda>r. content_type r = ct \<and> object_id r = oid) rows"

definition approved_reviews :: "nat \<Rightarrow> string \<Rightarrow> review list \<Rightarrow> review list" where
  "approved_reviews ct oid rows =
     filter (\<lambda>r. content_type r = ct \<and> object_id r = oid \<and> is_approved r) rows"

text \<open>The arithmetic mean of the ratings of a non-empty list of reviews.\<close>

definition mean_rating :: "review list \<Rightarrow> rat" where
  "mean_rating rows = of_int (sum_list (map rating rows)) / of_nat (length rows)"

text \<open>\<open>reviews.aggregate(Avg('rating'))['rating__avg']\<close>: \<open>None\<close> over no rows.\<close>

definition Avg_rating :: "(rat \<Rightarrow> rat) \<Rightarrow> review list \<Rightarrow> rat option" where
  "Avg_rating fl rows = (if rows = [] then None else Some (fl (mean_rating rows)))"

text \<open>
  \<open>round(x or 0, 2)\<close> on the aggregate: for \<open>None\<close> and for the number 0 the operand is the
  integer 0, which \<open>round\<close> returns as it is.
\<close>

definition round_or_zero :: "(rat \<Rightarrow> rat) \<Rightarrow> rat option \<Rightarrow> rat" where
  "round_or_zero rnd x = (case x of None \<Rightarrow> 0 | Some q \<Rightarrow> if q = 0 then 0 else rnd q)"

text \<open>
  \<open>Review.objects.get(user=u, content_type=ct, object_id=oid)\<close> inside the \<open>try\<close> that
  catches \<open>DoesNotExist\<close> only.
\<close>

definition get_user_review :: "nat \<Rightarrow> nat \<Rightarrow> string \<Rightarrow> review list \<Rightarrow> error + review option" where
  "get_user_review u ct oid rows =
     (case filter_rows u ct oid rows of
        [] \<Rightarrow> Inr None
      | [r] \<Rightarrow> Inr (Some r)
      | _ \<Rightarrow> Inl MultipleObjectsReturned)"

text \<open>
  \<open>ReviewSerializer(user_review).data if user_review else None\<close>, the entry \<open>user_review\<close>
  of the dictionary \<open>data\<close> of the view.
\<close>

definition user_review_data :: "review option \<Rightarrow> error + review_data option" where
  "user_review_data rv =
     (case rv of
        None \<Rightarrow> Inr None
      | Some r \<Rightarrow>
          (case ReviewSerializer_to_representation (Model r) of
             Inl e \<Rightarrow> Inl e
           | Inr d \<Rightarrow> Inr (Some d)))"

text \<open>
  \<open>InteractionStatsSerializer(data).data\<close>. The numbers and the flags are written as they
  are. The field \<open>user_review\<close> is a \<open>ReviewSerializer(allow_null=True)\<close>: \<open>None\<close> is written
  as \<open>None\<close>, and any other entry is serialised by \<open>ReviewSerializer\<close> once more; the entry
  is the dictionary that the view has put there.
\<close>

definition InteractionStatsSerializer_data :: "interaction_stats \<Rightarrow> error + interaction_stats" where
  "InteractionStatsSerializer_data data =
     (case user_review data of
        None \<Rightarrow> Inr data
      | Some d \<Rightarrow>
          (case ReviewSerializer_to_representation (Data d) of
             Inl e \<Rightarrow> Inl e
           | Inr d' \<Rightarrow> Inr (data\<lparr>user_review := Some d'\<rparr>)))"

text \<open>
  \<open>InteractionStatsView.get\<close>. The view allows any caller. A query parameter is a
  string, so only a missing or empty one is false for \<open>not\<close>.
\<close>

definition InteractionStatsView_get ::
  "(rat \<Rightarrow> rat) \<Rightarrow> (rat \<Rightarrow> rat) \<Rightarrow> stats_request \<Rightarrow> interactions_db \<Rightarrow> error + interaction_stats" where
  "InteractionStatsView_get fl rnd req db =
     (if st_content_type req = None \<or> falsy_str (st_object_id req)
      then Inl (BadRequest ''content_type and object_id are required'')
      else if the (st_content_type req) \<notin> set (content_types db)
      then Inl (BadRequest ''Invalid content_type'')
      else
        (let ct = the (st_content_type req); oid = the (st_object_id req);
             revs = approved_reviews ct oid (reviews db);
             base = \<lparr>stats_likes_count = length (for_target ct oid (likes db)),
                     stats_dislikes_count = length (for_target ct oid (dislikes db)),
                     reviews_count = length revs,
                     average_rating = round_or_zero rnd (Avg_rating fl revs),
                     user_liked = False, user_disliked = False, user_bookmarked = False,
                     user_review = None\<rparr>
         in (case st_user req of
               None \<Rightarrow> InteractionStatsSerializer_data base
             | Some u \<Rightarrow>
                 (case get_user_review (user_id u) ct oid (reviews db) of
                    Inl e \<Rightarrow> Inl e
                  | Inr rv \<Rightarrow>
                      (case user_review_data rv of
                         Inl e \<Rightarrow> Inl e
                       | Inr d \<Rightarrow>
                           InteractionStatsSerializer_data
                             (base\<lparr>user_liked := exists_row (user_id u) ct oid (likes db),
                                   user_disliked := exists_row (user_id u) ct oid (dislikes db),
                                   user_bookmarked := exists_row (user_id u) ct oid (bookmarks db),
                                   user_review := d\<rparr>))))))"

text \<open>
  A database with three approved reviews and one that is not approved, for the same
  article; the first review is the one of \<open>reader\<close>. \<open>visitor\<close> has written none.
\<close>

definition review_of :: "nat \<Rightarrow> nat \<Rightarrow> int \<Rightarrow> bool \<Rightarrow> review" where
  "review_of k u rt ok =
     \<lparr>pk = k, owner = u, content_type = 7, object_id = ''a1'', created_at = 0, rating = rt,
      title = [], comment = ''fine'', is_approved = ok, updated_at = 0\<rparr>"

definition reviewed_db :: interactions_db where
  "reviewed_db =
     sample_db\<lparr>reviews := [review_of 1 1 4 True, review_of 2 2 5 True, review_of 3 3 1 False,
                            review_of 4 4 5 True]\<rparr>"

definition visitor :: user where
  "visitor = \<lparr>user_id = 9, is_staff = False\<rparr>"

definition stats_query :: "user option \<Rightarrow> stats_request" where
  "stats_query u = \<lparr>st_user = u, st_content_type = Some 7, st_object_id = Some ''a1''\<rparr>"

definition reader_review :: "int \<Rightarrow> string \<Rightarrow> review_request" where
  "reader_review rt cm =
     \<lparr>rv_user = Some reader, rv_content_type = Some 7, rv_object_id = Some ''a1'',
      rv_rating = Some rt, rv_title = None, rv_comment = Some cm\<rparr>"

section \<open>tags/models.py: UserInterest\<close>

text \<open>
  A row of \<open>UserInterest\<close>, which is also the instance a view holds in memory. The four
  counters are PositiveIntegerFields; in memory they are Python integers, and the score
  is a float, here an exact rational.
\<close>

record user_interest =
  interest_id :: nat
  interest_user :: nat
  category :: "nat option"
  tag :: "nat option"
  score :: rat
  view_count :: int
  like_count :: int
  share_count :: int
  time_spent :: int

record interest_db =
  categories :: "nat list"
  tags :: "nat list"
  interests :: "user_interest list"

text \<open>The expression \<open>calculate_score\<close> evaluates on the fields of the instance.\<close>

definition weighted_score :: "user_interest \<Rightarrow> rat" where
  "weighted_score r =
     of_int (view_count r * 1) + of_int (like_count r * 5) + of_int (share_count r * 10)
     + of_int (time_spent r) / 60 * 2"

text \<open>
  \<open>UserInterest.calculate_score\<close>: the score is stored on the instance and written with
  \<open>save(update_fields=['score'])\<close>, an UPDATE of the score column of the row with the
  instance's key; no other field of the instance is written. The result is the score
  returned, the instance and the table afterwards.
\<close>

definition save_score :: "nat \<Rightarrow> rat \<Rightarrow> user_interest list \<Rightarrow> user_interest list" where
  "save_score i s rows = map (\<lambda>r. if interest_id r = i then r\<lparr>score := s\<rparr> else r) rows"

definition calculate_score ::
  "user_interest \<Rightarrow> user_interest list \<Rightarrow> rat \<times> user_interest \<times> user_interest list" where
  "calculate_score inst rows =
     (let s = weighted_score inst
      in (s, inst\<lparr>score := s\<rparr>, save_score (interest_id inst) s rows))"

section \<open>tags/views.py: TrackInteractionView\<close>

record track_request =
  track_user :: "user option"
  track_type :: "string option"
  category_id :: "nat option"
  tag_id :: "nat option"
  track_time_spent :: "int option"

text \<open>The rows \<open>filter(user=u, category_id=c)\<close> and \<open>filter(user=u, tag_id=t)\<close> select.\<close>

definition for_category :: "nat \<Rightarrow> nat \<Rightarrow> user_interest \<Rightarrow> bool" where
  "for_category u c r \<longleftrightarrow> interest_user r = u \<and> category r = Some c"

definition for_tag :: "nat \<Rightarrow> nat \<Rightarrow> user_interest \<Rightarrow> bool" where
  "for_tag u t r \<longleftrightarrow> interest_user r = u \<and> tag r = Some t"

definition fresh_interest_id :: "user_interest list \<Rightarrow> nat" where
  "fresh_interest_id rows = Suc (fold max (map interest_id rows) 0)"

text \<open>
  \<open>UserInterest.objects.get_or_create(user=u, category_id=c)\<close>. A created row has the
  defaults of the model in every other column; the foreign key makes the database
  refuse a category that does not exist.
\<close>

definition get_or_create_category ::
  "nat \<Rightarrow> nat \<Rightarrow> interest_db \<Rightarrow> error + (user_interest \<times> user_interest list)" where
  "get_or_create_category u c db =
     (case filter (for_category u c) (interests db) of
        [] \<Rightarrow>
          if c \<notin> set (categories db) then Inl IntegrityError
          else
            (let r = \<lparr>interest_id = fresh_interest_id (interests db), interest_user = u,
                      category = Some c, tag = None, score = 0, view_count = 0,
                      like_count = 0, share_count = 0, time_spent = 0\<rparr>
             in Inr (r, interests db @ [r]))
      | [r] \<Rightarrow> Inr (r, interests db)
      | _ \<Rightarrow> Inl MultipleObjectsReturned)"

text \<open>\<open>UserInterest.objects.get_or_create(user=u, tag_id=t)\<close>.\<close>

definition get_or_create_tag ::
  "nat \<Rightarrow> nat \<Rightarrow> interest_db \<Rightarrow> error + (user_interest \<times> user_interest list)" where
  "get_or_create_tag u t db =
     (case filter (for_tag u t) (interests db) of
        [] \<Rightarrow>
          if t \<notin> set (tags db) then Inl IntegrityError
          else
            (let r = \<lparr>interest_id = fresh_interest_id (interests db), interest_user = u,
                      category = None, tag = Some t, score = 0, view_count = 0,
                      like_count = 0, share_count = 0, time_spent = 0\<rparr>
             in Inr (r, interests db @ [r]))
      | [r] \<Rightarrow> Inr (r, interests db)
      | _ \<Rightarrow> Inl MultipleObjectsReturned)"

text \<open>
  The statements both blocks of the view run on the instance: the counter of the
  interaction type goes up by one, and a non-zero \<open>time_spent\<close> is added.
\<close>

definition record_on_instance :: "string \<Rightarrow> int \<Rightarrow> user_interest \<Rightarrow> user_interest" where
  "record_on_instance ty ts inst =
     (let i1 = (if ty = ''view'' then inst\<lparr>view_count := view_count inst + 1\<rparr>
                else if ty = ''like'' then inst\<lparr>like_count := like_count inst + 1\<rparr>
                else if ty = ''share'' then inst\<lparr>share_count := share_count inst + 1\<rparr>
                else inst)
      in (if ts \<noteq> 0 then i1\<lparr>time_spent := time_spent i1 + ts\<rparr> else i1))"

definition track_category :: "string \<Rightarrow> int \<Rightarrow> nat \<Rightarrow> nat \<Rightarrow> interest_db \<Rightarrow> error + interest_db" where
  "track_category ty ts u c db =
     (case get_or_create_category u c db of
        Inl e \<Rightarrow> Inl e
      | Inr (interest, rows) \<Rightarrow>
          (case calculate_score (record_on_instance ty ts interest) rows of
             (s, inst, rows') \<Rightarrow> Inr (db\<lparr>interests := rows'\<rparr>)))"

definition track_tag :: "string \<Rightarrow> int \<Rightarrow> nat \<Rightarrow> nat \<Rightarrow> interest_db \<Rightarrow> error + interest_db" where
  "track_tag ty ts u t db =
     (case get_or_create_tag u t db of
        Inl e \<Rightarrow> Inl e
      | Inr (interest, rows) \<Rightarrow>
          (case calculate_score (record_on_instance ty ts interest) rows of
             (s, inst, rows') \<Rightarrow> Inr (db\<lparr>interests := rows'\<rparr>)))"

text \<open>
  \<open>TrackInteractionView.post\<close>: the category block, then the tag block on the database
  the first block left.
\<close>

definition TrackInteractionView_post :: "track_request \<Rightarrow> interest_db \<Rightarrow> error + interest_db" where
  "TrackInteractionView_post req db =
     (case track_user req of
        None \<Rightarrow> Inl NotAuthenticated
      | Some usr \<Rightarrow>
          if falsy_str (track_type req) then Inl (BadRequest ''Interaction type is required'')
          else
            (let ty = the (track_type req);
                 ts = (case track_time_spent req of None \<Rightarrow> 0 | Some n \<Rightarrow> n)
             in (case (if falsy_nat (category_id req) then Inr db
                       else track_category ty ts (user_id usr) (the (category_id req)) db) of
                   Inl e \<Rightarrow> Inl e
                 | Inr db1 \<Rightarrow>
                     if falsy_nat (tag_id req) then Inr db1
                     else track_tag ty ts (user_id usr) (the (tag_id req)) db1)))"

text \<open>
  The counters a lookup starts from: those of the one row it finds, or the defaults of a
  row it creates.
\<close>

definition counters :: "user_interest \<Rightarrow> int \<times> int \<times> int \<times> int" where
  "counters r = (view_count r, like_count r, share_count r, time_spent r)"

definition stored_counters :: "user_interest list \<Rightarrow> int \<times> int \<times> int \<times> int" where
  "stored_counters rows = (case rows of [] \<Rightarrow> (0, 0, 0, 0) | r # _ \<Rightarrow> counters r)"

text \<open>A row without its score, to compare rows up to the score.\<close>

definition unscored :: "user_interest \<Rightarrow> user_interest" where
  "unscored r = r\<lparr>score := 0\<rparr>"

text \<open>
  What one block of the view leaves of a table, stated once for both blocks: \<open>K\<close> selects
  the rows of the block's lookup and \<open>Q\<close> those of the other block's. The keys stay
  distinct; the lookup now finds one row, whose score is the weighted score of its
  counters with this interaction recorded and whose counters are the stored ones; every
  row with another key is a row of the table before; and the rows of \<open>Q\<close> are as before
  up to their score.
\<close>

definition block_result ::
  "string \<Rightarrow> int \<Rightarrow> (user_interest \<Rightarrow> bool) \<Rightarrow> (user_interest \<Rightarrow> bool)
    \<Rightarrow> user_interest list \<Rightarrow> user_interest list \<Rightarrow> bool" where
  "block_result ty ts K Q rows rows' \<longleftrightarrow>
     distinct (map interest_id rows') \<and>
     (\<exists>rk. filter K rows' = [rk] \<and>
           score rk = weighted_score (record_on_instance ty ts rk) \<and>
           counters rk = stored_counters (filter K rows) \<and>
           (\<forall>x \<in> set rows'. interest_id x \<noteq> interest_id rk \<longrightarrow> x \<in> set rows)) \<and>
     map unscored (filter Q rows') = map unscored (filter Q rows)"

text \<open>The row of the scenario of the specification, and a database and request for a run.\<close>

definition scenario_row :: user_interest where
  "scenario_row =
     \<lparr>interest_id = 1, interest_user = 1, category = None, tag = Some 3, score = 0,
      view_count = 10, like_count = 2, share_count = 0, time_spent = 120\<rparr>"

definition scenario_db :: interest_db where
  "scenario_db = \<lparr>categories = [2], tags = [3], interests = [scenario_row]\<rparr>"

definition scenario_request :: track_request where
  "scenario_request =
     \<lparr>track_user = Some reader, track_type = Some ''view'', category_id = Some 2,
      tag_id = Some 3, track_time_spent = Some 60\<rparr>"

section \<open>tags/models.py: PushSubscription\<close>

record push_subscription =
  sub_id :: nat
  sub_user :: nat
  endpoint :: string
  p256dh :: string
  auth :: string
  user_agent :: string
  device_name :: string
  is_active :: bool
  sub_created_at :: int
  sub_updated_at :: int
  last_used :: int

section \<open>tags/push\_notifications.py: send\_push\_notification\<close>

text \<open>
  What the call of \<open>webpush\<close> does for one subscription: it returns, it raises
  \<open>WebPushException\<close> (whose \<open>response\<close> attribute is \<open>None\<close> or the HTTP response of the
  push service), or it raises another exception. The push service is outside the
  program, so the outcome per subscription is a parameter of the model.
\<close>

record http_response =
  status_code :: nat

datatype push_outcome =
    Delivered
  | WebPushException "http_response option"
  | OtherException

text \<open>
  The guard of the source is \<open>e.response and e.response.status_code in [404, 410]\<close>, so it
  depends on the truth value Python gives the response object. \<open>pywebpush\<close> puts the
  \<open>requests.Response\<close> it received there, and the truth value of a \<open>requests.Response\<close>
  is its \<open>ok\<close> property: false for every status from 400 to 599. \<open>always_truthy\<close> is the
  truth value of an object that defines none, for comparison.
\<close>

definition requests_truthy :: "http_response \<Rightarrow> bool" where
  "requests_truthy r \<longleftrightarrow> \<not> (400 \<le> status_code r \<and> status_code r < 600)"

definition always_truthy :: "http_response \<Rightarrow> bool" where
  "always_truthy r \<longleftrightarrow> True"

definition gone_guard :: "(http_response \<Rightarrow> bool) \<Rightarrow> http_response option \<Rightarrow> bool" where
  "gone_guard truthy resp \<longleftrightarrow>
     (case resp of
        None \<Rightarrow> False
      | Some r \<Rightarrow> truthy r \<and> status_code r \<in> set [404, 410])"

text \<open>\<open>subscription.save(update_fields=[...])\<close>: an UPDATE of the row with the key.\<close>

definition save_last_used :: "int \<Rightarrow> nat \<Rightarrow> push_subscription list \<Rightarrow> push_subscription list" where
  "save_last_used now i subs = map (\<lambda>r. if sub_id r = i then r\<lparr>last_used := now\<rparr> else r) subs"

definition save_inactive :: "nat \<Rightarrow> push_subscription list \<Rightarrow> push_subscription list" where
  "save_inactive i subs = map (\<lambda>r. if sub_id r = i then r\<lparr>is_active := False\<rparr> else r) subs"

record push_result =
  sent :: nat
  failed :: nat
  failed_subscriptions :: "nat list option"

text \<open>
  The loop over the subscriptions: the state is \<open>sent_count\<close>, \<open>failed_count\<close>,
  \<open>failed_subscriptions\<close> and the table.
\<close>

fun send_loop ::
  "(http_response \<Rightarrow> bool) \<Rightarrow> (push_subscription \<Rightarrow> push_outcome) \<Rightarrow> int
    \<Rightarrow> push_subscription list \<Rightarrow> nat \<times> nat \<times> nat list \<times> push_subscription list
    \<Rightarrow> nat \<times> nat \<times> nat list \<times> push_subscription list" where
  "send_loop truthy webpush now [] acc = acc"
| "send_loop truthy webpush now (s # ss) (sent_count, failed_count, failed_subs, subs) =
     send_loop truthy webpush now ss
       (case webpush s of
          Delivered \<Rightarrow>
            (sent_count + 1, failed_count, failed_subs, save_last_used now (sub_id s) subs)
        | WebPushException resp \<Rightarrow>
            if gone_guard truthy resp
            then (sent_count, failed_count + 1, failed_subs @ [sub_id s],
                  save_inactive (sub_id s) subs)
            else (sent_count, failed_count + 1, failed_subs, subs)
        | OtherException \<Rightarrow> (sent_count, failed_count + 1, failed_subs, subs))"

text \<open>
  \<open>send_push_notification\<close> for the user \<open>u\<close>: the result dictionary and the table
  afterwards. Without an active subscription the dictionary has no
  \<open>failed_subscriptions\<close> entry.
\<close>

definition send_push_notification ::
  "(http_response \<Rightarrow> bool) \<Rightarrow> (push_subscription \<Rightarrow> push_outcome) \<Rightarrow> int \<Rightarrow> nat
    \<Rightarrow> push_subscription list \<Rightarrow> push_result \<times> push_subscription list" where
  "send_push_notification truthy webpush now u subs =
     (let subscriptions = filter (\<lambda>r. sub_user r = u \<and> is_active r) subs
      in if subscriptions = []
         then (\<lparr>sent = 0, failed = 0, failed_subscriptions = None\<rparr>, subs)
         else
           (case send_loop truthy webpush now subscriptions (0, 0, [], subs) of
              (sent_count, failed_count, failed_subs, subs') \<Rightarrow>
                (\<lparr>sent = sent_count, failed = failed_count,
                  failed_subscriptions = Some failed_subs\<rparr>, subs')))"

text \<open>
  The scenario of the specification: one user with two active subscriptions; the push
  service answers 410 Gone for the first and accepts the second.
\<close>

definition device :: "nat \<Rightarrow> string \<Rightarrow> push_subscription" where
  "device i e =
     \<lparr>sub_id = i, sub_user = 1, endpoint = e, p256dh = ''key'', auth = ''secret'',
      user_agent = [], device_name = [], is_active = True, sub_created_at = 0,
      sub_updated_at = 0, last_used = 0\<rparr>"

definition two_devices :: "push_subscription list" where
  "two_devices = [device 1 ''https://push.example/gone'', device 2 ''https://push.example/ok'']"

definition first_gone :: "push_subscription \<Rightarrow> push_outcome" where
  "first_gone s =
     (if sub_id s = 1 then WebPushException (Some \<lparr>status_code = 410\<rparr>) else Delivered)"

section \<open>tags/views.py: PushSubscriptionView.post\<close>

text \<open>
  The body of the request: the fields \<open>PushSubscriptionSerializer\<close> reads and the
  \<open>User-Agent\<close> header.
\<close>

record subscribe_request =
  ps_user :: "user option"
  ps_endpoint :: "string option"
  ps_p256dh :: "string option"
  ps_auth :: "string option"
  ps_device_name :: "string option"
  http_user_agent :: "string option"

record validated_subscription =
  vs_endpoint :: string
  vs_p256dh :: string
  vs_auth :: string
  vs_device_name :: "string option"

text \<open>
  \<open>serializer.is_valid()\<close> of the model serializer, built without an instance. The
  fields come from the model: \<open>endpoint\<close> is a URL of at most 500 characters, \<open>p256dh\<close> and
  \<open>auth\<close> are required and at most 255 characters, \<open>device_name\<close> may be blank or missing
  and has at most 100. The model declares \<open>endpoint\<close> unique, and for a unique model
  field the serializer field carries a uniqueness validator: an endpoint that a stored
  row already has is a validation error. What counts as a URL is decided by Django's
  validator, a parameter here.
\<close>

definition subscription_is_valid ::
  "(string \<Rightarrow> bool) \<Rightarrow> subscribe_request \<Rightarrow> push_subscription list
    \<Rightarrow> error + validated_subscription" where
  "subscription_is_valid is_url req subs =
     (case (ps_endpoint req, ps_p256dh req, ps_auth req) of
        (Some e, Some k, Some a) \<Rightarrow>
          if strip e = [] \<or> 500 < length (strip e) \<or> \<not> is_url (strip e)
          then Inl (ValidationError ''endpoint'')
          else if \<exists>r \<in> set subs. endpoint r = strip e
          then Inl (ValidationError ''push subscription with this endpoint already exists.'')
          else if strip k = [] \<or> 255 < length (strip k) then Inl (ValidationError ''p256dh'')
          else if strip a = [] \<or> 255 < length (strip a) then Inl (ValidationError ''auth'')
          else if 100 < length (strip (case ps_device_name req of None \<Rightarrow> [] | Some d \<Rightarrow> d))
          then Inl (ValidationError ''device_name'')
          else Inr \<lparr>vs_endpoint = strip e, vs_p256dh = strip k, vs_auth = strip a,
                    vs_device_name = map_option strip (ps_device_name req)\<rparr>
      | _ \<Rightarrow> Inl (ValidationError ''This field is required.''))"

definition fresh_sub_id :: "push_subscription list \<Rightarrow> nat" where
  "fresh_sub_id subs = Suc (fold max (map sub_id subs) 0)"

text \<open>
  \<open>PushSubscription.objects.update_or_create(endpoint=e, defaults=...)\<close>: the one row
  with the endpoint gets the defaults and is saved, or a row is created from the endpoint
  and the defaults. The result is the row, whether it was created, and the table.
\<close>

definition update_or_create ::
  "int \<Rightarrow> string \<Rightarrow> nat \<Rightarrow> string \<Rightarrow> string \<Rightarrow> string \<Rightarrow> string \<Rightarrow> push_subscription list
    \<Rightarrow> error + (push_subscription \<times> bool \<times> push_subscription list)" where
  "update_or_create now e u k a dn ua subs =
     (case filter (\<lambda>r. endpoint r = e) subs of
        [] \<Rightarrow>
          (let r = \<lparr>sub_id = fresh_sub_id subs, sub_user = u, endpoint = e, p256dh = k,
                    auth = a, user_agent = ua, device_name = dn, is_active = True,
                    sub_created_at = now, sub_updated_at = now, last_used = now\<rparr>
           in Inr (r, True, subs @ [r]))
      | [r] \<Rightarrow>
          (let r' = r\<lparr>sub_user := u, p256dh := k, auth := a, user_agent := ua,
                      device_name := dn, is_active := True, sub_updated_at := now,
                      last_used := now\<rparr>
           in Inr (r', False, map (\<lambda>x. if sub_id x = sub_id r then r' else x) subs))
      | _ \<Rightarrow> Inl MultipleObjectsReturned)"

text \<open>
  \<open>PushSubscriptionView.post\<close>: the response (the subscription and whether it was
  created, or the error) and the table afterwards.
\<close>

definition PushSubscriptionView_post ::
  "(string \<Rightarrow> bool) \<Rightarrow> int \<Rightarrow> subscribe_request \<Rightarrow> push_subscription list
    \<Rightarrow> (error + (push_subscription \<times> bool)) \<times> push_subscription list" where
  "PushSubscriptionView_post is_url now req subs =
     (case ps_user req of
        None \<Rightarrow> (Inl NotAuthenticated, subs)
      | Some usr \<Rightarrow>
          (case subscription_is_valid is_url req subs of
             Inl e \<Rightarrow> (Inl e, subs)
           | Inr v \<Rightarrow>
               (case update_or_create now (vs_endpoint v) (user_id usr) (vs_p256dh v)
                       (vs_auth v)
                       (case vs_device_name v of None \<Rightarrow> [] | Some d \<Rightarrow> d)
                       (case http_user_agent req of None \<Rightarrow> [] | Some h \<Rightarrow> h) subs of
                  Inl e \<Rightarrow> (Inl e, subs)
                | Inr (r, created, subs') \<Rightarrow> (Inr (r, created), subs'))))"

text \<open>
  A table with one inactive subscription of user 1, and the request of another user (the
  reader's colleague, user 2) to subscribe the same endpoint with her own keys.
\<close>

definition old_device :: push_subscription where
  "old_device = (device 1 ''https://push.example/shared'')\<lparr>is_active := False\<rparr>"

definition colleague_request :: subscribe_request where
  "colleague_request =
     \<lparr>ps_user = Some \<lparr>user_id = 2, is_staff = False\<rparr>,
      ps_endpoint = Some ''https://push.example/shared'', ps_p256dh = Some ''newkey'',
      ps_auth = Some ''newsecret'', ps_device_name = Some ''laptop'',
      http_user_agent = Some ''Firefox''\<rparr>"

definition any_url :: "string \<Rightarrow> bool" where
  "any_url s \<longleftrightarrow> True"

section \<open>interactions/models.py: Comment\<close>

text \<open>
  A row of \<open>Comment\<close>: the columns every interaction has, then the content, the key of
  the parent comment, and the fields of editing, moderation and counting. The primary
  key is a UUID, here a number.
\<close>

record comment_row = generic_row +
  content :: string
  parent :: "nat option"
  is_edited :: bool
  edited_at :: "int option"
  comment_is_approved :: bool
  is_flagged :: bool
  comment_like_count :: nat
  reply_count :: nat
  comment_updated_at :: int

text \<open>
  The values a Python attribute or dictionary entry can hold here: \<open>None\<close>, a string, or
  a model instance (given by its key).
\<close>

datatype pyval = PyNone | PyStr string | PyInstance nat

text \<open>
  A \<open>Comment\<close> instance in memory: its field values and \<open>_state.fields_cache\<close>, the
  dictionary in which Django keeps the instances of the relations it has followed
  (\<open>user\<close>, \<open>content_type\<close>, \<open>parent\<close>), keyed by the name of the relation.
\<close>

record comment_instance =
  field_values :: comment_row
  fields_cache :: "(string \<times> pyval) list"

text \<open>\<open>d.get(k)\<close>: \<open>None\<close> for a missing key.\<close>

definition dict_get :: "(string \<times> pyval) list \<Rightarrow> string \<Rightarrow> pyval" where
  "dict_get d k = (case map_of d k of None \<Rightarrow> PyNone | Some v \<Rightarrow> v)"

text \<open>
  An instance as the ORM builds it from a stored row, and as a view builds a new one:
  the cache of relations is empty.
\<close>

definition from_db :: "comment_row \<Rightarrow> comment_instance" where
  "from_db r = \<lparr>field_values = r, fields_cache = []\<rparr>"

text \<open>
  The truth value of \<open>self.pk\<close>: the key is a \<open>UUID\<close> object, set by the field's default
  when the instance is constructed, and a \<open>UUID\<close> object is true.
\<close>

definition pk_truthy :: "nat \<Rightarrow> bool" where
  "pk_truthy k \<longleftrightarrow> True"

text \<open>
  The first statement of \<open>Comment.save\<close>, on the instance:
  \<open>if self.pk and self.content != self._state.fields_cache.get('content')\<close>.
\<close>

definition mark_edited :: "int \<Rightarrow> comment_instance \<Rightarrow> comment_instance" where
  "mark_edited now inst =
     (if pk_truthy (pk (field_values inst))
         \<and> PyStr (content (field_values inst)) \<noteq> dict_get (fields_cache inst) ''content''
      then inst\<lparr>field_values := (field_values inst)\<lparr>is_edited := True, edited_at := Some now\<rparr>\<rparr>
      else inst)"

text \<open>
  \<open>super().save()\<close> without \<open>update_fields\<close>: the row with the key is replaced by the
  fields of the instance, or inserted; \<open>updated_at\<close> is set in both cases and
  \<open>created_at\<close> on insertion. The result is the stored row and the table.
\<close>

definition save_all_fields :: "int \<Rightarrow> comment_row \<Rightarrow> comment_row list \<Rightarrow> comment_row \<times> comment_row list" where
  "save_all_fields now r rows =
     (if \<exists>x \<in> set rows. pk x = pk r
      then (let r' = r\<lparr>comment_updated_at := now\<rparr>
            in (r', map (\<lambda>x. if pk x = pk r then r' else x) rows))
      else (let r' = r\<lparr>created_at := now, comment_updated_at := now\<rparr>
            in (r', rows @ [r'])))"

text \<open>\<open>self.parent.replies.count()\<close>: the stored comments whose parent is the key.\<close>

definition replies_count :: "nat \<Rightarrow> comment_row list \<Rightarrow> nat" where
  "replies_count k rows = length (filter (\<lambda>x. parent x = Some k) rows)"

text \<open>\<open>super().save(update_fields=['reply_count'])\<close>: only that column is written.\<close>

definition save_reply_count :: "nat \<Rightarrow> nat \<Rightarrow> comment_row list \<Rightarrow> comment_row list" where
  "save_reply_count k n rows = map (\<lambda>x. if pk x = k then x\<lparr>reply_count := n\<rparr> else x) rows"

text \<open>
  The tail of \<open>Comment.save\<close> for a comment with a parent: the parent is loaded, its
  \<open>reply_count\<close> is set to the count of its replies, and \<open>self.parent.save\<close> is called
  with \<open>update_fields=['reply_count']\<close>. That call is \<open>Comment.save\<close> on the parent: what
  it sets for editing stays on the parent's instance, the one column is written, and the
  tail runs again for the parent's own parent. The first argument bounds the depth of
  the calls, as Python's recursion limit does.
\<close>

fun update_parent :: "nat \<Rightarrow> nat \<Rightarrow> comment_row list \<Rightarrow> error + comment_row list" where
  "update_parent 0 k rows = Inl RecursionError"
| "update_parent (Suc depth) k rows =
     (case filter (\<lambda>x. pk x = k) rows of
        [] \<Rightarrow> Inl DoesNotExist
      | p # _ \<Rightarrow>
          (let rows' = save_reply_count k (replies_count k rows) rows
           in (case parent p of
                 None \<Rightarrow> Inr rows'
               | Some g \<Rightarrow> update_parent depth g rows')))"

text \<open>
  \<open>Comment.save()\<close>, called without arguments on an instance: the instance and the
  table afterwards.
\<close>

definition Comment_save ::
  "nat \<Rightarrow> int \<Rightarrow> comment_instance \<Rightarrow> comment_row list
    \<Rightarrow> error + (comment_instance \<times> comment_row list)" where
  "Comment_save depth now inst rows =
     (let inst1 = mark_edited now inst;
          (r', rows1) = save_all_fields now (field_values inst1) rows;
          inst2 = inst1\<lparr>field_values := r'\<rparr>
      in (case parent r' of
            None \<Rightarrow> Inr (inst2, rows1)
          | Some k \<Rightarrow>
              (case update_parent depth k rows1 of
                 Inl e \<Rightarrow> Inl e
               | Inr rows2 \<Rightarrow> Inr (inst2\<lparr>fields_cache := (''parent'', PyInstance k)
                                            # fields_cache inst2\<rparr>, rows2))))"

text \<open>A stored comment that was never edited, for a concrete run.\<close>

definition stored_comment :: comment_row where
  "stored_comment =
     \<lparr>pk = 1, owner = 1, content_type = 7, object_id = ''a1'', created_at = 0,
      content = ''hello'', parent = None, is_edited = False, edited_at = None,
      comment_is_approved = True, is_flagged = False, comment_like_count = 0,
      reply_count = 0, comment_updated_at = 0\<rparr>"

section \<open>tags/views.py: RecommendedFeedView\<close>

text \<open>
  Both feed builders open with \<open>from news.models import Article\<close>. The statement raises
  \<open>ImportError\<close> unless the module binds the name. \<open>news_models\<close> lists the names that
  \<open>news/models.py\<close> binds: the ones it imports, its function and its three classes;
  \<open>Article\<close> is not among them.
\<close>

definition news_models :: "string list" where
  "news_models =
     [''models'', ''settings'', ''slugify'', ''timezone'', ''GenericRelation'', ''uuid'',
      ''Like'', ''Comment'', ''Share'', ''View'', ''Bookmark'', ''news_image_path'',
      ''NewsArticle'', ''NewsImage'', ''NewsRevision'']"

text \<open>\<open>from module import name\<close>, for a module that binds the names \<open>ns\<close>.\<close>

definition import_from :: "string list \<Rightarrow> string \<Rightarrow> error + unit" where
  "import_from ns name = (if name \<in> set ns then Inr () else Inl ImportError)"

text \<open>
  The statements after the import read a model with the attributes \<open>id\<close>, \<open>title\<close>,
  \<open>slug\<close>, \<open>excerpt\<close>, \<open>image\<close>, \<open>status\<close>, \<open>published_at\<close>, \<open>view_count\<close> and
  \<open>category\<close>. The rows of that model are the parameter \<open>arts\<close> of the builders; they are
  read only when the import has succeeded. Times are seconds.
\<close>

record article =
  art_id :: nat
  art_title :: string
  art_slug :: string
  art_excerpt :: string
  art_image :: "string option"
  art_status :: string
  art_published_at :: "int option"
  art_view_count :: nat
  art_category :: string

text \<open>
  An item of a feed. The trending builder puts \<open>view_count\<close> in it and the personalized
  builder \<open>score\<close>; the entry the builder leaves out is \<open>None\<close>.
\<close>

record feed_item =
  item_type :: string
  item_id :: nat
  item_title :: string
  item_slug :: string
  item_excerpt :: string
  item_image :: "string option"
  item_published_at :: "int option"
  item_view_count :: "nat option"
  item_score :: "rat option"
  item_category :: string

record feed_response =
  feed :: "feed_item list"
  page :: int
  page_size :: int
  total :: nat
  algorithm :: string

text \<open>\<open>xs[start:end]\<close> on a Python list, negative bounds counting from the end.\<close>

definition py_slice :: "'a list \<Rightarrow> int \<Rightarrow> int \<Rightarrow> 'a list" where
  "py_slice xs start stop =
     (let n = int (length xs);
          s = (if start < 0 then max 0 (start + n) else min start n);
          e = (if stop < 0 then max 0 (stop + n) else min stop n)
      in take (nat (e - s)) (drop (nat s) xs))"

text \<open>\<open>queryset[:k]\<close>: a queryset refuses a negative bound.\<close>

definition queryset_limit :: "int \<Rightarrow> 'a list \<Rightarrow> error + 'a list" where
  "queryset_limit k xs = (if k < 0 then Inl NegativeIndexing else Inr (take (nat k) xs))"

definition days :: "int \<Rightarrow> int" where
  "days d = d * 86400"

text \<open>
  The candidates of the trending feed: published, published within the last seven days,
  ordered by \<open>-view_count\<close> and then \<open>-published_at\<close>.
\<close>

definition is_recent_published :: "int \<Rightarrow> article \<Rightarrow> bool" where
  "is_recent_published now a \<longleftrightarrow>
     art_status a = ''published'' \<and>
     (case art_published_at a of None \<Rightarrow> False | Some t \<Rightarrow> now - days 7 \<le> t)"

definition trending_key :: "article \<Rightarrow> int \<times> int" where
  "trending_key a = (- int (art_view_count a), - the (art_published_at a))"

definition trending_item :: "article \<Rightarrow> feed_item" where
  "trending_item a =
     \<lparr>item_type = ''article'', item_id = art_id a, item_title = art_title a,
      item_slug = art_slug a, item_excerpt = art_excerpt a, item_image = art_image a,
      item_published_at = art_published_at a, item_view_count = Some (art_view_count a),
      item_score = None, item_category = art_category a\<rparr>"

text \<open>\<open>_get_trending_feed\<close>, in a program whose \<open>news.models\<close> binds the names \<open>ns\<close>.\<close>

definition get_trending_feed ::
  "string list \<Rightarrow> int \<Rightarrow> article list \<Rightarrow> int \<Rightarrow> int \<Rightarrow> error + feed_response" where
  "get_trending_feed ns now arts psize pg =
     (case import_from ns ''Article'' of
        Inl e \<Rightarrow> Inl e
      | Inr _ \<Rightarrow>
          (case queryset_limit (psize * 2)
                  (sort_key trending_key (filter (is_recent_published now) arts)) of
             Inl e \<Rightarrow> Inl e
           | Inr candidates \<Rightarrow>
               (let content = map trending_item candidates;
                    start = (pg - 1) * psize;
                    stop = start + psize
                in Inr \<lparr>feed = py_slice content start stop, page = pg, page_size = psize,
                         total = length content, algorithm = ''trending''\<rparr>)))"

text \<open>
  \<open>_calculate_content_score\<close>: the recency score, 100 less ten for each day of age and
  never below 0, plus a tenth of the view count. The interests and subscriptions it
  receives are not read.
\<close>

definition calculate_content_score ::
  "int \<Rightarrow> article \<Rightarrow> user_interest list \<Rightarrow> rat" where
  "calculate_content_score now a interests_of_user =
     (case art_published_at a of
        None \<Rightarrow> 0
      | Some t \<Rightarrow> max 0 (100 - of_int (now - t) / 3600 / 24 * 10))
     + of_nat (art_view_count a) * (1 / 10)"

definition scored_item :: "int \<Rightarrow> user_interest list \<Rightarrow> article \<Rightarrow> feed_item" where
  "scored_item now ints a =
     \<lparr>item_type = ''article'', item_id = art_id a, item_title = art_title a,
      item_slug = art_slug a, item_excerpt = art_excerpt a, item_image = art_image a,
      item_published_at = art_published_at a, item_view_count = None,
      item_score = Some (calculate_content_score now a ints), item_category = art_category a\<rparr>"

text \<open>
  \<open>_get_personalized_feed\<close>, after the same import: the ten interests of the user with the highest score are
  read, the first \<open>3 * page_size\<close> published articles are scored, sorted by falling score
  and sliced.
\<close>

definition get_personalized_feed ::
  "string list \<Rightarrow> int \<Rightarrow> article list \<Rightarrow> user_interest list \<Rightarrow> user \<Rightarrow> int \<Rightarrow> int
    \<Rightarrow> error + feed_response" where
  "get_personalized_feed ns now arts ints u psize pg =
     (case import_from ns ''Article'' of
        Inl e \<Rightarrow> Inl e
      | Inr _ \<Rightarrow>
          (let top_interests = take 10 (sort_key (\<lambda>r. - score r)
                                 (filter (\<lambda>r. interest_user r = user_id u) ints))
           in (case queryset_limit (psize * 3)
                       (filter (\<lambda>a. art_status a = ''published'') arts) of
                 Inl e \<Rightarrow> Inl e
               | Inr candidates \<Rightarrow>
                   (let scored_content = sort_key (\<lambda>i. - the (item_score i))
                                           (map (scored_item now top_interests) candidates);
                        start = (pg - 1) * psize;
                        stop = start + psize
                    in Inr \<lparr>feed = py_slice scored_content start stop, page = pg,
                             page_size = psize, total = length scored_content,
                             algorithm = ''personalized''\<rparr>))))"

text \<open>
  \<open>RecommendedFeedView.get\<close>. The two query parameters are the integers \<open>int(...)\<close> reads,
  \<open>None\<close> when the parameter is missing.
\<close>

record feed_request =
  feed_user :: "user option"
  query_page_size :: "int option"
  query_page :: "int option"

definition RecommendedFeedView_get ::
  "string list \<Rightarrow> int \<Rightarrow> article list \<Rightarrow> user_interest list \<Rightarrow> feed_request
    \<Rightarrow> error + feed_response" where
  "RecommendedFeedView_get ns now arts ints req =
     (let psize = (case query_page_size req of None \<Rightarrow> 20 | Some n \<Rightarrow> n);
          pg = (case query_page req of None \<Rightarrow> 1 | Some n \<Rightarrow> n)
      in (case feed_user req of
            Some u \<Rightarrow> get_personalized_feed ns now arts ints u psize pg
          | None \<Rightarrow> get_trending_feed ns now arts psize pg))"

text \<open>The order of the trending feed on its items: more views first, then the newer.\<close>

definition trending_order :: "feed_item \<Rightarrow> feed_item \<Rightarrow> bool" where
  "trending_order x y \<longleftrightarrow>
     the (item_view_count y) < the (item_view_count x)
     \<or> (item_view_count x = item_view_count y
        \<and> the (item_published_at y) \<le> the (item_published_at x))"

text \<open>Three articles for a concrete run at time \<open>days 10\<close>: one is too old, one is a draft.\<close>

definition story :: "nat \<Rightarrow> string \<Rightarrow> int \<Rightarrow> nat \<Rightarrow> article" where
  "story i st t v =
     \<lparr>art_id = i, art_title = ''t'', art_slug = ''s'', art_excerpt = [], art_image = None,
      art_status = st, art_published_at = Some t, art_view_count = v, art_category = ''c''\<rparr>"

definition newsroom :: "article list" where
  "newsroom = [story 1 ''published'' (days 9) 5, story 2 ''published'' (days 1) 90,
               story 3 ''draft'' (days 9) 70, story 4 ''published'' (days 8) 40]"

section \<open>Lemmas on the tables of the toggle views\<close>

lemma matches_new_row [simp]: "matches u ct oid (new_row now u ct oid rows)"
  by (simp add: matches_def new_row_def)

lemma get_or_create_absent:
  "filter_rows u ct oid rows = [] \<Longrightarrow>
   get_or_create now u ct oid rows =
     Inr (new_row now u ct oid rows, True, rows @ [new_row now u ct oid rows])"
  by (simp add: get_or_create_def Let_def new_row_def)

lemma get_or_create_single:
  "filter_rows u ct oid rows = [r] \<Longrightarrow> get_or_create now u ct oid rows = Inr (r, False, rows)"
  by (simp add: get_or_create_def)

lemma get_or_create_created:
  "get_or_create now u ct oid rows = Inr (r, True, rows') \<Longrightarrow>
   filter_rows u ct oid rows = [] \<and> rows' = rows @ [r] \<and> matches u ct oid r"
  by (auto simp: get_or_create_def Let_def matches_def split: list.splits)

lemma get_or_create_found:
  "get_or_create now u ct oid rows = Inr (r, False, rows') \<Longrightarrow>
   filter_rows u ct oid rows = [r] \<and> rows' = rows"
  by (auto simp: get_or_create_def Let_def split: list.splits)

lemma filter_rows_snoc:
  "filter_rows u ct oid (rows @ [r]) =
     filter_rows u ct oid rows @ (if matches u ct oid r then [r] else [])"
  by (simp add: filter_rows_def)

lemma filter_rows_delete_single:
  assumes "filter_rows u ct oid rows = [r]"
  shows "filter_rows u ct oid (delete_instance r rows) = []"
proof -
  have "x = r" if "x \<in> set rows" "matches u ct oid x" for x
  proof -
    from that have "x \<in> set (filter_rows u ct oid rows)" by (simp add: filter_rows_def)
    with assms show "x = r" by simp
  qed
  then show ?thesis
    by (auto simp: filter_rows_def delete_instance_def filter_empty_conv)
qed

lemma filter_rows_filter_delete_same:
  "filter_rows u ct oid (filter_delete u ct oid rows) = []"
  by (auto simp: filter_rows_def filter_delete_def filter_empty_conv)

lemma exists_row_delete_instance:
  "exists_row u ct oid (delete_instance r rows) \<Longrightarrow> exists_row u ct oid rows"
  by (auto simp: exists_row_def filter_rows_def delete_instance_def filter_empty_conv)

lemma exists_row_filter_delete:
  "exists_row u ct oid (filter_delete u' ct' oid' rows) \<Longrightarrow> exists_row u ct oid rows"
  by (auto simp: exists_row_def filter_rows_def filter_delete_def filter_empty_conv)

lemma exists_row_snoc:
  "exists_row u ct oid (rows @ [r]) \<longleftrightarrow> exists_row u ct oid rows \<or> matches u ct oid r"
  by (auto simp: exists_row_def filter_rows_snoc)

lemma matches_same_key:
  "matches u ct oid r \<Longrightarrow> matches u' ct' oid' r \<Longrightarrow> u' = u \<and> ct' = ct \<and> oid' = oid"
  by (auto simp: matches_def)

lemma fold_max_ge: "(n::nat) \<le> fold max xs n"
  by (induction xs arbitrary: n) (auto intro: order_trans [OF max.cobounded2])

lemma fold_max_mem: "(x::nat) \<in> set xs \<Longrightarrow> x \<le> fold max xs n"
proof (induction xs arbitrary: n)
  case Nil
  then show ?case by simp
next
  case (Cons a xs)
  show ?case
  proof (cases "x = a")
    case True
    have "a \<le> max a n" by simp
    also have "\<dots> \<le> fold max xs (max a n)" by (rule fold_max_ge)
    finally show ?thesis using True by simp
  next
    case False
    with Cons show ?thesis by simp
  qed
qed

lemma fresh_pk_new: "r \<in> set rows \<Longrightarrow> pk r \<noteq> fresh_pk rows"
proof -
  assume "r \<in> set rows"
  then have "pk r \<in> set (map pk rows)" by simp
  then have "pk r \<le> fold max (map pk rows) 0" by (rule fold_max_mem)
  then show ?thesis by (simp add: fresh_pk_def)
qed

lemma delete_new_row:
  "delete_instance (new_row now u ct oid rows) (rows @ [new_row now u ct oid rows]) = rows"
proof -
  have "filter (\<lambda>x. pk x \<noteq> fresh_pk rows) rows = rows"
    by (simp add: filter_id_conv fresh_pk_new)
  then show ?thesis by (simp add: delete_instance_def new_row_def)
qed


lemma resolve_target_content_types:
  "content_types db' = content_types db \<Longrightarrow> resolve_target req db' = resolve_target req db"
  by (simp add: resolve_target_def split: option.splits)

lemma like_post_create:
  "resolve_target req db = Inr (u, ct, oid) \<Longrightarrow> filter_rows u ct oid (likes db) = [] \<Longrightarrow>
   LikeToggleView_post now req db =
     Inr (True, db\<lparr>likes := likes db @ [new_row now u ct oid (likes db)],
                   dislikes := filter_delete u ct oid (dislikes db)\<rparr>)"
  by (simp add: LikeToggleView_post_def get_or_create_absent)

lemma like_post_delete:
  "resolve_target req db = Inr (u, ct, oid) \<Longrightarrow> filter_rows u ct oid (likes db) = [r] \<Longrightarrow>
   LikeToggleView_post now req db = Inr (False, db\<lparr>likes := delete_instance r (likes db)\<rparr>)"
  by (simp add: LikeToggleView_post_def get_or_create_single)

lemma dislike_post_create:
  "resolve_target req db = Inr (u, ct, oid) \<Longrightarrow> filter_rows u ct oid (dislikes db) = [] \<Longrightarrow>
   DislikeToggleView_post now req db =
     Inr (True, db\<lparr>dislikes := dislikes db @ [new_row now u ct oid (dislikes db)],
                   likes := filter_delete u ct oid (likes db)\<rparr>)"
  by (simp add: DislikeToggleView_post_def get_or_create_absent)

lemma dislike_post_delete:
  "resolve_target req db = Inr (u, ct, oid) \<Longrightarrow> filter_rows u ct oid (dislikes db) = [r] \<Longrightarrow>
   DislikeToggleView_post now req db = Inr (False, db\<lparr>dislikes := delete_instance r (dislikes db)\<rparr>)"
  by (simp add: DislikeToggleView_post_def get_or_create_single)

lemma bookmark_post_create:
  "resolve_target req db = Inr (u, ct, oid) \<Longrightarrow> filter_rows u ct oid (bookmarks db) = [] \<Longrightarrow>
   BookmarkToggleView_post now req db =
     Inr (True, db\<lparr>bookmarks := bookmarks db @ [new_row now u ct oid (bookmarks db)]\<rparr>)"
  by (simp add: BookmarkToggleView_post_def get_or_create_absent)

lemma bookmark_post_delete:
  "resolve_target req db = Inr (u, ct, oid) \<Longrightarrow> filter_rows u ct oid (bookmarks db) = [r] \<Longrightarrow>
   BookmarkToggleView_post now req db = Inr (False, db\<lparr>bookmarks := delete_instance r (bookmarks db)\<rparr>)"
  by (simp add: BookmarkToggleView_post_def get_or_create_single)

lemma like_post_keeps_exclusive:
  assumes "LikeToggleView_post now req db = Inr (flag, db')"
    and "\<not> both_present u ct oid db"
  shows "\<not> both_present u ct oid db'"
proof -
  from assms(1) obtain u0 ct0 oid0 where rt: "resolve_target req db = Inr (u0, ct0, oid0)"
    by (auto simp: LikeToggleView_post_def split: sum.splits)
  from assms(1) rt obtain like created likes' where
    goc: "get_or_create now u0 ct0 oid0 (likes db) = Inr (like, created, likes')"
    by (auto simp: LikeToggleView_post_def split: sum.splits)
  show ?thesis
  proof (cases created)
    case False
    with assms(1) rt goc have db': "db' = db\<lparr>likes := delete_instance like likes'\<rparr>"
      by (simp add: LikeToggleView_post_def)
    from goc False have "get_or_create now u0 ct0 oid0 (likes db) = Inr (like, False, likes')"
      by simp
    then have "likes' = likes db" using get_or_create_found by blast
    with db' assms(2) show ?thesis
      by (auto simp: both_present_def dest: exists_row_delete_instance)
  next
    case True
    with assms(1) rt goc have db': "db' = db\<lparr>likes := likes',
        dislikes := filter_delete u0 ct0 oid0 (dislikes db)\<rparr>"
      by (simp add: LikeToggleView_post_def)
    from goc True have "get_or_create now u0 ct0 oid0 (likes db) = Inr (like, True, likes')"
      by simp
    then have c: "likes' = likes db @ [like]" "matches u0 ct0 oid0 like"
      using get_or_create_created by blast+
    show ?thesis
    proof
      assume b: "both_present u ct oid db'"
      show False
      proof (cases "matches u ct oid like")
        case True
        then have "u = u0 \<and> ct = ct0 \<and> oid = oid0" using c(2) matches_same_key by blast
        with b db' show False
          by (simp add: both_present_def exists_row_def filter_rows_filter_delete_same)
      next
        case False
        with b db' c(1) have "exists_row u ct oid (likes db)"
          by (simp add: both_present_def exists_row_snoc)
        moreover from b db' have "exists_row u ct oid (dislikes db)"
          by (auto simp: both_present_def dest: exists_row_filter_delete)
        ultimately show False using assms(2) by (simp add: both_present_def)
      qed
    qed
  qed
qed

lemma dislike_post_keeps_exclusive:
  assumes "DislikeToggleView_post now req db = Inr (flag, db')"
    and "\<not> both_present u ct oid db"
  shows "\<not> both_present u ct oid db'"
proof -
  from assms(1) obtain u0 ct0 oid0 where rt: "resolve_target req db = Inr (u0, ct0, oid0)"
    by (auto simp: DislikeToggleView_post_def split: sum.splits)
  from assms(1) rt obtain dislike created dislikes' where
    goc: "get_or_create now u0 ct0 oid0 (dislikes db) = Inr (dislike, created, dislikes')"
    by (auto simp: DislikeToggleView_post_def split: sum.splits)
  show ?thesis
  proof (cases created)
    case False
    with assms(1) rt goc have db': "db' = db\<lparr>dislikes := delete_instance dislike dislikes'\<rparr>"
      by (simp add: DislikeToggleView_post_def)
    from goc False have "get_or_create now u0 ct0 oid0 (dislikes db) = Inr (dislike, False, dislikes')"
      by simp
    then have "dislikes' = dislikes db" using get_or_create_found by blast
    with db' assms(2) show ?thesis
      by (auto simp: both_present_def dest: exists_row_delete_instance)
  next
    case True
    with assms(1) rt goc have db': "db' = db\<lparr>dislikes := dislikes',
        likes := filter_delete u0 ct0 oid0 (likes db)\<rparr>"
      by (simp add: DislikeToggleView_post_def)
    from goc True have "get_or_create now u0 ct0 oid0 (dislikes db) = Inr (dislike, True, dislikes')"
      by simp
    then have c: "dislikes' = dislikes db @ [dislike]" "matches u0 ct0 oid0 dislike"
      using get_or_create_created by blast+
    show ?thesis
    proof
      assume b: "both_present u ct oid db'"
      show False
      proof (cases "matches u ct oid dislike")
        case True
        then have "u = u0 \<and> ct = ct0 \<and> oid = oid0" using c(2) matches_same_key by blast
        with b db' show False
          by (simp add: both_present_def exists_row_def filter_rows_filter_delete_same)
      next
        case False
        with b db' c(1) have "exists_row u ct oid (dislikes db)"
          by (simp add: both_present_def exists_row_snoc)
        moreover from b db' have "exists_row u ct oid (likes db)"
          by (auto simp: both_present_def dest: exists_row_filter_delete)
        ultimately show False using assms(2) by (simp add: both_present_def)
      qed
    qed
  qed
qed

lemma length_le_one_cases: "length xs \<le> 1 \<Longrightarrow> xs = [] \<or> (\<exists>x. xs = [x])"
  by (cases xs) auto

lemma like_then_dislike:
  assumes rt: "resolve_target req db = Inr (u, ct, oid)"
    and uniq: "length (filter_rows u ct oid (likes db)) \<le> 1"
    and excl: "\<not> both_present u ct oid db"
  shows "\<exists>flag db1 db2.
           LikeToggleView_post t1 req db = Inr (flag, db1) \<and>
           DislikeToggleView_post t2 req db1 = Inr (True, db2) \<and>
           filter_rows u ct oid (likes db2) = [] \<and>
           length (filter_rows u ct oid (dislikes db2)) = 1"
proof -
  from uniq consider "filter_rows u ct oid (likes db) = []"
    | r where "filter_rows u ct oid (likes db) = [r]"
    using length_le_one_cases by blast
  then show ?thesis
  proof cases
    case 1
    define db1 where "db1 = db\<lparr>likes := likes db @ [new_row t1 u ct oid (likes db)],
                   dislikes := filter_delete u ct oid (dislikes db)\<rparr>"
    have p1: "LikeToggleView_post t1 req db = Inr (True, db1)"
      unfolding db1_def using rt 1 by (rule like_post_create)
    have rt1: "resolve_target req db1 = Inr (u, ct, oid)"
      using rt resolve_target_content_types [of db1 db req] by (simp add: db1_def)
    have d1: "filter_rows u ct oid (dislikes db1) = []"
      by (simp add: db1_def filter_rows_filter_delete_same)
    note p2 = dislike_post_create [OF rt1 d1, of t2]
    show ?thesis
      apply (rule exI [of _ True], rule exI [of _ db1], rule exI)
      apply (intro conjI)
         apply (rule p1)
        apply (rule p2)
       apply (simp add: filter_rows_filter_delete_same)
      apply (simp add: filter_rows_snoc d1)
      done
  next
    case 2
    define db1 where "db1 = db\<lparr>likes := delete_instance r (likes db)\<rparr>"
    have p1: "LikeToggleView_post t1 req db = Inr (False, db1)"
      unfolding db1_def using rt 2 by (rule like_post_delete)
    have rt1: "resolve_target req db1 = Inr (u, ct, oid)"
      using rt resolve_target_content_types [of db1 db req] by (simp add: db1_def)
    from 2 excl have "filter_rows u ct oid (dislikes db) = []"
      by (simp add: both_present_def exists_row_def)
    then have d1: "filter_rows u ct oid (dislikes db1) = []" by (simp add: db1_def)
    note p2 = dislike_post_create [OF rt1 d1, of t2]
    show ?thesis
      apply (rule exI [of _ False], rule exI [of _ db1], rule exI)
      apply (intro conjI)
         apply (rule p1)
        apply (rule p2)
       apply (simp add: filter_rows_filter_delete_same)
      apply (simp add: filter_rows_snoc d1)
      done
  qed
qed

lemmas sample_defs = reader_def sample_article_def sample_db_def reader_request_def

lemma sample_resolve: "resolve_target reader_request sample_db = Inr (1, 7, ''a1'')"
  by (simp add: resolve_target_def sample_defs falsy_nat_def falsy_str_def)

lemma toggle_create:
  assumes "resolve_target req db = Inr (u, ct, oid)" and "filter_rows u ct oid (table k db) = []"
  shows "\<exists>db'. toggle k now req db = Inr (True, db') \<and>
               length (filter_rows u ct oid (table k db')) = 1 \<and> articles db' = articles db"
proof (cases k)
  case Like
  with assms show ?thesis by (simp add: like_post_create filter_rows_snoc)
next
  case Dislike
  with assms show ?thesis by (simp add: dislike_post_create filter_rows_snoc)
next
  case Bookmark
  with assms show ?thesis by (simp add: bookmark_post_create filter_rows_snoc)
qed

lemma toggle_delete:
  assumes "resolve_target req db = Inr (u, ct, oid)"
    and "length (filter_rows u ct oid (table k db)) = 1"
  shows "\<exists>db'. toggle k now req db = Inr (False, db') \<and>
               filter_rows u ct oid (table k db') = [] \<and> articles db' = articles db"
proof -
  from assms(2) obtain r where r: "filter_rows u ct oid (table k db) = [r]"
    by (cases "filter_rows u ct oid (table k db)") auto
  show ?thesis
  proof (cases k)
    case Like
    with assms(1) r show ?thesis by (simp add: like_post_delete filter_rows_delete_single)
  next
    case Dislike
    with assms(1) r show ?thesis by (simp add: dislike_post_delete filter_rows_delete_single)
  next
    case Bookmark
    with assms(1) r show ?thesis by (simp add: bookmark_post_delete filter_rows_delete_single)
  qed
qed

lemma get_object_mem: "get_object u sl arts = Inr a \<Longrightarrow> a \<in> set arts"
proof -
  assume "get_object u sl arts = Inr a"
  then have "filter (\<lambda>a. slug a = sl) (get_queryset u arts) = [a]"
    by (auto simp: get_object_def split: list.splits)
  then have "a \<in> set (filter (\<lambda>a. slug a = sl) (get_queryset u arts))" by simp
  then show ?thesis by (auto simp: get_queryset_def split: if_splits)
qed

lemma get_object_map:
  assumes "get_object u sl arts = Inr a"
    and "\<And>x. slug (f x) = slug x" and "\<And>x. status (f x) = status x"
  shows "get_object u sl (map f arts) = Inr (f a)"
proof -
  from assms(1) have *: "filter (\<lambda>a. slug a = sl) (get_queryset u arts) = [a]"
    by (auto simp: get_object_def split: list.splits)
  have "get_queryset u (map f arts) = map f (get_queryset u arts)"
    by (simp add: get_queryset_def filter_map o_def assms(3))
  then have "filter (\<lambda>a. slug a = sl) (get_queryset u (map f arts)) =
             map f (filter (\<lambda>a. slug a = sl) (get_queryset u arts))"
    by (simp add: filter_map o_def assms(2))
  with * show ?thesis by (simp add: get_object_def)
qed

lemma get_object_increment:
  "get_object u sl arts = Inr a \<Longrightarrow>
   get_object u sl (increment_likes (article_id a) arts) = Inr (a\<lparr>likes_count := likes_count a + 1\<rparr>)"
  unfolding increment_likes_def
  by (drule get_object_map [where f = "\<lambda>x. if article_id x = article_id a
        then x\<lparr>likes_count := likes_count x + 1\<rparr> else x"]) auto

lemma decrement_likes_ok:
  assumes "distinct (map article_id arts)" and "a \<in> set arts" and "0 < likes_count a"
  shows "decrement_likes (article_id a) arts =
         Inr (map (\<lambda>x. if article_id x = article_id a then x\<lparr>likes_count := likes_count x - 1\<rparr>
                        else x) arts)"
proof -
  have "x = a" if "x \<in> set arts" "article_id x = article_id a" for x
    using that assms(1,2) by (meson distinct_map inj_onD)
  with assms(3) have "\<not> (\<exists>x \<in> set arts. article_id x = article_id a \<and> likes_count x = 0)"
    by auto
  then show ?thesis by (simp add: decrement_likes_def)
qed

lemma get_object_decrement:
  assumes "get_object u sl arts = Inr a" and "distinct (map article_id arts)" and "0 < likes_count a"
  shows "\<exists>arts'. decrement_likes (article_id a) arts = Inr arts' \<and>
           get_object u sl arts' = Inr (a\<lparr>likes_count := likes_count a - 1\<rparr>)"
proof -
  have m: "a \<in> set arts" using assms(1) by (rule get_object_mem)
  have "get_object u sl (map (\<lambda>x. if article_id x = article_id a
          then x\<lparr>likes_count := likes_count x - 1\<rparr> else x) arts)
        = Inr (a\<lparr>likes_count := likes_count a - 1\<rparr>)"
    using get_object_map [OF assms(1), where f = "\<lambda>x. if article_id x = article_id a
          then x\<lparr>likes_count := likes_count x - 1\<rparr> else x"] by auto
  with decrement_likes_ok [OF assms(2) m assms(3)] show ?thesis by simp
qed

lemma increment_likes_positive:
  "\<not> (\<exists>x \<in> set (increment_likes aid arts). article_id x = aid \<and> likes_count x = 0)"
  unfolding increment_likes_def by (induction arts) simp_all

lemma decrement_map_increment:
  "map (\<lambda>a. if article_id a = aid then a\<lparr>likes_count := likes_count a - 1\<rparr> else a)
     (increment_likes aid arts) = arts"
  unfolding increment_likes_def by (induction arts) simp_all

lemma decrement_increment:
  "decrement_likes aid (increment_likes aid arts) = Inr arts"
  unfolding decrement_likes_def
  using increment_likes_positive [of aid arts] decrement_map_increment [of aid arts] by simp

lemma increment_map_decrement:
  "\<forall>x \<in> set arts. article_id x = aid \<longrightarrow> 0 < likes_count x \<Longrightarrow>
   increment_likes aid
     (map (\<lambda>a. if article_id a = aid then a\<lparr>likes_count := likes_count a - 1\<rparr> else a) arts)
   = arts"
  unfolding increment_likes_def by (induction arts) simp_all

lemma increment_decrement:
  assumes "distinct (map article_id arts)" and "a \<in> set arts" and "0 < likes_count a"
  shows "\<exists>arts'. decrement_likes (article_id a) arts = Inr arts' \<and>
           increment_likes (article_id a) arts' = arts"
proof -
  have eq: "x = a" if "x \<in> set arts" "article_id x = article_id a" for x
    using that assms(1,2) by (meson distinct_map inj_onD)
  with assms(3) have "\<forall>x \<in> set arts. article_id x = article_id a \<longrightarrow> 0 < likes_count x"
    by blast
  then have "increment_likes (article_id a)
     (map (\<lambda>x. if article_id x = article_id a then x\<lparr>likes_count := likes_count x - 1\<rparr>
                 else x) arts) = arts"
    by (rule increment_map_decrement)
  with decrement_likes_ok [OF assms] show ?thesis by simp
qed

lemma article_like_create:
  assumes "get_object u sl (articles db) = Inr a"
    and "filter_rows (user_id u) ct (article_id a) (likes db) = []"
  shows "NewsArticleViewSet_like now ct (Some u) sl db =
         Inr (True, db\<lparr>likes := likes db @ [new_row now (user_id u) ct (article_id a) (likes db)],
                       articles := increment_likes (article_id a) (articles db)\<rparr>)"
  using assms
  by (simp add: NewsArticleViewSet_like_def NewsArticleViewSet_like_run_def get_or_create_absent)

lemma article_like_delete:
  assumes "get_object u sl (articles db) = Inr a"
    and "filter_rows (user_id u) ct (article_id a) (likes db) = [r]"
    and "decrement_likes (article_id a) (articles db) = Inr arts'"
  shows "NewsArticleViewSet_like now ct (Some u) sl db =
         Inr (False, db\<lparr>likes := delete_instance r (likes db), articles := arts'\<rparr>)"
  using assms
  by (simp add: NewsArticleViewSet_like_def NewsArticleViewSet_like_run_def get_or_create_single)

lemma generic_like_twice:
  assumes rt: "resolve_target req db = Inr (u, ct, oid)"
    and uniq: "length (filter_rows u ct oid (likes db)) \<le> 1"
  shows "\<exists>flag db1 db2.
           LikeToggleView_post t1 req db = Inr (flag, db1) \<and>
           LikeToggleView_post t2 req db1 = Inr (\<not> flag, db2) \<and>
           flag = (\<not> exists_row u ct oid (likes db)) \<and>
           exists_row u ct oid (likes db2) = exists_row u ct oid (likes db) \<and>
           articles db2 = articles db \<and>
           (\<not> exists_row u ct oid (likes db) \<longrightarrow> likes db2 = likes db)"
proof -
  from uniq consider "filter_rows u ct oid (likes db) = []"
    | r where "filter_rows u ct oid (likes db) = [r]"
    using length_le_one_cases by blast
  then show ?thesis
  proof cases
    case 1
    define n where "n = new_row t1 u ct oid (likes db)"
    define db1 where "db1 = db\<lparr>likes := likes db @ [n],
                   dislikes := filter_delete u ct oid (dislikes db)\<rparr>"
    have p1: "LikeToggleView_post t1 req db = Inr (True, db1)"
      unfolding db1_def n_def using rt 1 by (rule like_post_create)
    have rt1: "resolve_target req db1 = Inr (u, ct, oid)"
      using rt resolve_target_content_types [of db1 db req] by (simp add: db1_def)
    have l1: "filter_rows u ct oid (likes db1) = [n]"
      by (simp add: db1_def filter_rows_snoc 1 n_def)
    have p2: "LikeToggleView_post t2 req db1 = Inr (False, db1\<lparr>likes := delete_instance n (likes db1)\<rparr>)"
      using rt1 l1 by (rule like_post_delete)
    have d: "delete_instance n (likes db1) = likes db"
      by (simp add: db1_def n_def delete_new_row)
    define db2 where "db2 = db1\<lparr>likes := delete_instance n (likes db1)\<rparr>"
    have "likes db2 = likes db" "articles db2 = articles db"
      by (simp_all add: db2_def d) (simp add: db1_def)
    moreover have "\<not> exists_row u ct oid (likes db)" by (simp add: exists_row_def 1)
    ultimately have "LikeToggleView_post t1 req db = Inr (True, db1) \<and>
           LikeToggleView_post t2 req db1 = Inr (\<not> True, db2) \<and>
           True = (\<not> exists_row u ct oid (likes db)) \<and>
           exists_row u ct oid (likes db2) = exists_row u ct oid (likes db) \<and>
           articles db2 = articles db \<and>
           (\<not> exists_row u ct oid (likes db) \<longrightarrow> likes db2 = likes db)"
      using p1 p2 by (simp add: db2_def)
    then show ?thesis by blast
  next
    case 2
    define db1 where "db1 = db\<lparr>likes := delete_instance r (likes db)\<rparr>"
    have p1: "LikeToggleView_post t1 req db = Inr (False, db1)"
      unfolding db1_def using rt 2 by (rule like_post_delete)
    have rt1: "resolve_target req db1 = Inr (u, ct, oid)"
      using rt resolve_target_content_types [of db1 db req] by (simp add: db1_def)
    have l1: "filter_rows u ct oid (likes db1) = []"
      by (simp add: db1_def filter_rows_delete_single [OF 2])
    define db2 where "db2 = db1\<lparr>likes := likes db1 @ [new_row t2 u ct oid (likes db1)],
                   dislikes := filter_delete u ct oid (dislikes db1)\<rparr>"
    have p2: "LikeToggleView_post t2 req db1 = Inr (True, db2)"
      unfolding db2_def using rt1 l1 by (rule like_post_create)
    have "exists_row u ct oid (likes db2)" by (simp add: db2_def exists_row_snoc)
    moreover have "exists_row u ct oid (likes db)" by (simp add: exists_row_def 2)
    moreover have "articles db2 = articles db" by (simp add: db2_def db1_def)
    ultimately have "LikeToggleView_post t1 req db = Inr (False, db1) \<and>
           LikeToggleView_post t2 req db1 = Inr (\<not> False, db2) \<and>
           False = (\<not> exists_row u ct oid (likes db)) \<and>
           exists_row u ct oid (likes db2) = exists_row u ct oid (likes db) \<and>
           articles db2 = articles db \<and>
           (\<not> exists_row u ct oid (likes db) \<longrightarrow> likes db2 = likes db)"
      using p1 p2 by simp
    then show ?thesis by blast
  qed
qed

lemma article_like_twice:
  assumes go: "get_object usr sl (articles db) = Inr a"
    and dist: "distinct (map article_id (articles db))"
    and uniq: "length (filter_rows (user_id usr) nct (article_id a) (likes db)) \<le> 1"
    and pos: "exists_row (user_id usr) nct (article_id a) (likes db) \<longrightarrow> 0 < likes_count a"
  shows "\<exists>flag db1 db2.
           NewsArticleViewSet_like t1 nct (Some usr) sl db = Inr (flag, db1) \<and>
           NewsArticleViewSet_like t2 nct (Some usr) sl db1 = Inr (\<not> flag, db2) \<and>
           flag = (\<not> exists_row (user_id usr) nct (article_id a) (likes db)) \<and>
           exists_row (user_id usr) nct (article_id a) (likes db2)
             = exists_row (user_id usr) nct (article_id a) (likes db) \<and>
           articles db2 = articles db \<and>
           (\<not> exists_row (user_id usr) nct (article_id a) (likes db) \<longrightarrow> likes db2 = likes db)"
proof -
  let ?u = "user_id usr" and ?aid = "article_id a"
  from uniq consider "filter_rows ?u nct ?aid (likes db) = []"
    | r where "filter_rows ?u nct ?aid (likes db) = [r]"
    using length_le_one_cases by blast
  then show ?thesis
  proof cases
    case 1
    define n where "n = new_row t1 ?u nct ?aid (likes db)"
    define db1 where "db1 = db\<lparr>likes := likes db @ [n],
                   articles := increment_likes ?aid (articles db)\<rparr>"
    define a' where "a' = a\<lparr>likes_count := likes_count a + 1\<rparr>"
    have p1: "NewsArticleViewSet_like t1 nct (Some usr) sl db = Inr (True, db1)"
      unfolding db1_def n_def using go 1 by (rule article_like_create)
    have go1: "get_object usr sl (articles db1) = Inr a'"
      using get_object_increment [OF go] by (simp add: db1_def a'_def)
    have aid: "article_id a' = ?aid" by (simp add: a'_def)
    have l1: "filter_rows ?u nct (article_id a') (likes db1) = [n]"
      by (simp add: aid db1_def filter_rows_snoc 1 n_def)
    have dec: "decrement_likes (article_id a') (articles db1) = Inr (articles db)"
      by (simp add: aid db1_def decrement_increment)
    have d: "delete_instance n (likes db1) = likes db"
      by (simp add: db1_def n_def delete_new_row)
    define db2 where "db2 = db1\<lparr>likes := delete_instance n (likes db1), articles := articles db\<rparr>"
    have p2: "NewsArticleViewSet_like t2 nct (Some usr) sl db1 = Inr (False, db2)"
      unfolding db2_def using go1 l1 dec by (rule article_like_delete)
    have "likes db2 = likes db" "articles db2 = articles db"
      by (simp_all add: db2_def d)
    moreover have "\<not> exists_row ?u nct ?aid (likes db)" by (simp add: exists_row_def 1)
    ultimately have "NewsArticleViewSet_like t1 nct (Some usr) sl db = Inr (True, db1) \<and>
           NewsArticleViewSet_like t2 nct (Some usr) sl db1 = Inr (\<not> True, db2) \<and>
           True = (\<not> exists_row ?u nct ?aid (likes db)) \<and>
           exists_row ?u nct ?aid (likes db2) = exists_row ?u nct ?aid (likes db) \<and>
           articles db2 = articles db \<and>
           (\<not> exists_row ?u nct ?aid (likes db) \<longrightarrow> likes db2 = likes db)"
      using p1 p2 by simp
    then show ?thesis by blast
  next
    case 2
    then have ex: "exists_row ?u nct ?aid (likes db)" by (simp add: exists_row_def)
    with pos have pos': "0 < likes_count a" by simp
    have m: "a \<in> set (articles db)" using go by (rule get_object_mem)
    define arts' where "arts' = map (\<lambda>x. if article_id x = ?aid
        then x\<lparr>likes_count := likes_count x - 1\<rparr> else x) (articles db)"
    have dec: "decrement_likes ?aid (articles db) = Inr arts'"
      unfolding arts'_def using dist m pos' by (rule decrement_likes_ok)
    have inc: "increment_likes ?aid arts' = articles db"
      using increment_decrement [OF dist m pos'] dec by simp
    define a' where "a' = a\<lparr>likes_count := likes_count a - 1\<rparr>"
    have go1': "get_object usr sl arts' = Inr a'"
      using get_object_decrement [OF go dist pos'] dec by (simp add: a'_def)
    define db1 where "db1 = db\<lparr>likes := delete_instance r (likes db), articles := arts'\<rparr>"
    have p1: "NewsArticleViewSet_like t1 nct (Some usr) sl db = Inr (False, db1)"
      unfolding db1_def using go 2 dec by (rule article_like_delete)
    have go1: "get_object usr sl (articles db1) = Inr a'" using go1' by (simp add: db1_def)
    have aid: "article_id a' = ?aid" by (simp add: a'_def)
    have l1: "filter_rows ?u nct (article_id a') (likes db1) = []"
      by (simp add: aid db1_def filter_rows_delete_single [OF 2])
    define db2 where "db2 = db1\<lparr>likes := likes db1 @ [new_row t2 ?u nct (article_id a') (likes db1)],
                       articles := increment_likes (article_id a') (articles db1)\<rparr>"
    have p2: "NewsArticleViewSet_like t2 nct (Some usr) sl db1 = Inr (True, db2)"
      unfolding db2_def using go1 l1 by (rule article_like_create)
    have "matches ?u nct ?aid (new_row t2 ?u nct (article_id a') (likes db1))"
      unfolding aid by (rule matches_new_row)
    then have "exists_row ?u nct ?aid (likes db2)" by (simp add: db2_def exists_row_snoc)
    moreover have "articles db2 = articles db" by (simp add: db2_def aid db1_def inc)
    ultimately have "NewsArticleViewSet_like t1 nct (Some usr) sl db = Inr (False, db1) \<and>
           NewsArticleViewSet_like t2 nct (Some usr) sl db1 = Inr (\<not> False, db2) \<and>
           False = (\<not> exists_row ?u nct ?aid (likes db)) \<and>
           exists_row ?u nct ?aid (likes db2) = exists_row ?u nct ?aid (likes db) \<and>
           articles db2 = articles db \<and>
           (\<not> exists_row ?u nct ?aid (likes db) \<longrightarrow> likes db2 = likes db)"
      using p1 p2 ex by simp
    then show ?thesis by blast
  qed
qed

lemma article_like_counter:
  assumes go: "get_object usr sl (articles db) = Inr a"
    and dist: "distinct (map article_id (articles db))"
  shows "(filter_rows (user_id usr) nct (article_id a) (likes db) = [] \<longrightarrow>
           (\<exists>db'. NewsArticleViewSet_like now nct (Some usr) sl db = Inr (True, db') \<and>
                  length (filter_rows (user_id usr) nct (article_id a) (likes db')) = 1 \<and>
                  get_object usr sl (articles db') = Inr (a\<lparr>likes_count := likes_count a + 1\<rparr>)))
       \<and> (length (filter_rows (user_id usr) nct (article_id a) (likes db)) = 1 \<and> 0 < likes_count a \<longrightarrow>
           (\<exists>db'. NewsArticleViewSet_like now nct (Some usr) sl db = Inr (False, db') \<and>
                  filter_rows (user_id usr) nct (article_id a) (likes db') = [] \<and>
                  get_object usr sl (articles db') = Inr (a\<lparr>likes_count := likes_count a - 1\<rparr>)))"
proof (intro conjI impI)
  assume e: "filter_rows (user_id usr) nct (article_id a) (likes db) = []"
  show "\<exists>db'. NewsArticleViewSet_like now nct (Some usr) sl db = Inr (True, db') \<and>
                  length (filter_rows (user_id usr) nct (article_id a) (likes db')) = 1 \<and>
                  get_object usr sl (articles db') = Inr (a\<lparr>likes_count := likes_count a + 1\<rparr>)"
    using article_like_create [OF go e, of now] get_object_increment [OF go]
    by (simp add: filter_rows_snoc e)
next
  assume h: "length (filter_rows (user_id usr) nct (article_id a) (likes db)) = 1 \<and> 0 < likes_count a"
  then obtain r where r: "filter_rows (user_id usr) nct (article_id a) (likes db) = [r]"
    by (cases "filter_rows (user_id usr) nct (article_id a) (likes db)") auto
  from h have "0 < likes_count a" by simp
  from get_object_decrement [OF go dist this] obtain arts' where
    dec: "decrement_likes (article_id a) (articles db) = Inr arts'"
    and go': "get_object usr sl arts' = Inr (a\<lparr>likes_count := likes_count a - 1\<rparr>)"
    by blast
  show "\<exists>db'. NewsArticleViewSet_like now nct (Some usr) sl db = Inr (False, db') \<and>
                  filter_rows (user_id usr) nct (article_id a) (likes db') = [] \<and>
                  get_object usr sl (articles db') = Inr (a\<lparr>likes_count := likes_count a - 1\<rparr>)"
    using article_like_delete [OF go r dec, of now] go'
    by (simp add: filter_rows_delete_single [OF r])
qed

lemma sample_get_object: "get_object reader ''budget'' (articles sample_db) = Inr sample_article"
  by (simp add: get_object_def get_queryset_def sample_defs)

lemma sample_liked_resolve: "resolve_target reader_request sample_db_liked = Inr (1, 7, ''a1'')"
  by (simp add: resolve_target_def sample_defs sample_db_liked_def falsy_nat_def falsy_str_def)

lemma sample_liked_get_object:
  "get_object reader ''budget'' (articles sample_db_liked) = Inr (sample_article\<lparr>likes_count := 1\<rparr>)"
  by (simp add: get_object_def get_queryset_def sample_defs sample_db_liked_def)

section \<open>Lemmas on reviews and statistics\<close>

lemma exists_row_iff_key:
  "exists_row u ct oid rows \<longleftrightarrow> (u, ct, oid) \<in> set (map (\<lambda>r. (owner r, content_type r, object_id r)) rows)"
  by (auto simp: exists_row_def filter_rows_def matches_def filter_empty_conv)

lemma create_review_unique:
  "unique_together rows \<Longrightarrow> create_review now u v rows = Inr (r, rows') \<Longrightarrow> unique_together rows'"
  by (auto simp: create_review_def Let_def unique_together_def exists_row_iff_key split: if_splits)

lemma review_post_unique:
  assumes "unique_together (reviews db)"
  shows "unique_together (reviews (snd (ReviewListCreateView_post now req db)))"
  using assms create_review_unique
  by (auto simp: ReviewListCreateView_post_def split: option.splits sum.splits)

lemma review_post_error_unchanged:
  "ReviewListCreateView_post now req db = (Inl e, db') \<Longrightarrow> db' = db"
  by (auto simp: ReviewListCreateView_post_def split: option.splits sum.splits)

lemma is_valid_content_types:
  "content_types db' = content_types db \<Longrightarrow> is_valid req db' = is_valid req db"
  by (simp add: is_valid_def split: option.splits prod.splits)

lemma review_post_first:
  assumes "rv_user req = Some usr" and "is_valid req db = Inr v"
    and "\<not> exists_row (user_id usr) (v_content_type v) (v_object_id v) (reviews db)"
  shows "\<exists>r. ReviewListCreateView_post now req db = (Inr r, db\<lparr>reviews := reviews db @ [r]\<rparr>)
             \<and> matches (user_id usr) (v_content_type v) (v_object_id v) r
             \<and> rating r = v_rating v \<and> comment r = v_comment v"
  using assms
  by (simp add: ReviewListCreateView_post_def create_review_def Let_def matches_def)

lemma review_post_duplicate:
  assumes "rv_user req = Some usr" and "is_valid req db = Inr v"
    and "exists_row (user_id usr) (v_content_type v) (v_object_id v) (reviews db)"
  shows "ReviewListCreateView_post now req db = (Inl IntegrityError, db)"
  using assms by (simp add: ReviewListCreateView_post_def create_review_def)

lemma review_post_twice:
  assumes u1: "rv_user req1 = Some usr" and u2: "rv_user req2 = Some usr"
    and v1: "is_valid req1 db = Inr v1" and v2: "is_valid req2 db = Inr v2"
    and same: "v_content_type v2 = v_content_type v1" "v_object_id v2 = v_object_id v1"
    and new: "\<not> exists_row (user_id usr) (v_content_type v1) (v_object_id v1) (reviews db)"
  shows "\<exists>r db1. ReviewListCreateView_post t1 req1 db = (Inr r, db1)
           \<and> reviews db1 = reviews db @ [r]
           \<and> ReviewListCreateView_post t2 req2 db1 = (Inl IntegrityError, db1)"
proof -
  from review_post_first [OF u1 v1 new, of t1] obtain r where
    p1: "ReviewListCreateView_post t1 req1 db = (Inr r, db\<lparr>reviews := reviews db @ [r]\<rparr>)"
    and m: "matches (user_id usr) (v_content_type v1) (v_object_id v1) r" by blast
  let ?db1 = "db\<lparr>reviews := reviews db @ [r]\<rparr>"
  have "is_valid req2 ?db1 = Inr v2" using v2 is_valid_content_types [of ?db1 db req2] by simp
  moreover have "exists_row (user_id usr) (v_content_type v2) (v_object_id v2) (reviews ?db1)"
    using m same by (simp add: exists_row_def filter_rows_def)
  ultimately have "ReviewListCreateView_post t2 req2 ?db1 = (Inl IntegrityError, ?db1)"
    using u2 by (rule review_post_duplicate [rotated])
  with p1 show ?thesis by auto
qed

lemma round_or_zero_empty [simp]: "round_or_zero rnd (Avg_rating fl []) = 0"
  by (simp add: round_or_zero_def Avg_rating_def)

lemma round_or_zero_mean:
  "rows \<noteq> [] \<Longrightarrow>
     round_or_zero rnd (Avg_rating fl rows)
       = (if fl (mean_rating rows) = 0 then 0 else rnd (fl (mean_rating rows)))"
  by (simp add: round_or_zero_def Avg_rating_def)

text \<open>
  The view answers a caller who has no review of the target, anonymous or not: it counts
  the approved reviews of the target, and reports 0 with none, and otherwise the rounded
  float of their mean.
\<close>

lemma stats_view_returns:
  assumes ct: "st_content_type req = Some ct" "ct \<in> set (content_types db)"
    and oid: "st_object_id req = Some oid" "oid \<noteq> []"
    and none: "\<forall>u. st_user req = Some u \<longrightarrow> filter_rows (user_id u) ct oid (reviews db) = []"
  shows "\<exists>s. InteractionStatsView_get fl rnd req db = Inr s \<and>
           reviews_count s = length (approved_reviews ct oid (reviews db)) \<and>
           average_rating s = round_or_zero rnd (Avg_rating fl (approved_reviews ct oid (reviews db)))"
proof (cases "st_user req")
  case None
  with ct oid show ?thesis
    by (simp add: InteractionStatsView_get_def InteractionStatsSerializer_data_def falsy_str_def Let_def)
next
  case (Some u)
  with none have "get_user_review (user_id u) ct oid (reviews db) = Inr None"
    by (simp add: get_user_review_def)
  with Some ct oid show ?thesis
    by (simp add: InteractionStatsView_get_def InteractionStatsSerializer_data_def
        user_review_data_def falsy_str_def Let_def)
qed

text \<open>
  The view raises \<open>AttributeError\<close> for every caller who has a review of the target: the
  review is serialised by the view, and the dictionary once more by the serializer of the
  statistics.
\<close>

lemma stats_view_own_review:
  assumes ct: "st_content_type req = Some ct" "ct \<in> set (content_types db)"
    and oid: "st_object_id req = Some oid" "oid \<noteq> []"
    and own: "st_user req = Some u" "filter_rows (user_id u) ct oid (reviews db) = [r]"
  shows "InteractionStatsView_get fl rnd req db = Inl AttributeError"
proof -
  from own(2) have "get_user_review (user_id u) ct oid (reviews db) = Inr (Some r)"
    by (simp add: get_user_review_def)
  with own(1) ct oid show ?thesis
    by (simp add: InteractionStatsView_get_def InteractionStatsSerializer_data_def
        user_review_data_def ReviewSerializer_to_representation_def falsy_str_def Let_def)
qed

lemma reviewed_db_approved:
  "approved_reviews 7 ''a1'' (reviews reviewed_db)
     = [review_of 1 1 4 True, review_of 2 2 5 True, review_of 4 4 5 True]"
  by (simp add: approved_reviews_def reviewed_db_def review_of_def)

lemma reviewed_db_mean: "mean_rating (approved_reviews 7 ''a1'' (reviews reviewed_db)) = 14 / 3"
  unfolding reviewed_db_approved by (simp add: mean_rating_def review_of_def)

lemma sample_is_valid:
  "is_valid (reader_review 4 ''good'') sample_db =
     Inr \<lparr>v_content_type = 7, v_object_id = ''a1'', v_rating = 4, v_title = [], v_comment = ''good''\<rparr>"
  by (simp add: is_valid_def reader_review_def sample_db_def strip_def is_space_def)

lemma sample_is_valid2:
  "is_valid (reader_review 1 ''bad'') sample_db =
     Inr \<lparr>v_content_type = 7, v_object_id = ''a1'', v_rating = 1, v_title = [], v_comment = ''bad''\<rparr>"
  by (simp add: is_valid_def reader_review_def sample_db_def strip_def is_space_def)

section \<open>Lemmas on the interest scorer\<close>

lemma weighted_score_score [simp]: "weighted_score (r\<lparr>score := s\<rparr>) = weighted_score r"
  by (simp add: weighted_score_def)

lemma record_on_instance_score:
  "record_on_instance ty ts (r\<lparr>score := s\<rparr>) = (record_on_instance ty ts r)\<lparr>score := s\<rparr>"
  by (simp add: record_on_instance_def Let_def)

lemma record_on_instance_id [simp]:
  "interest_id (record_on_instance ty ts r) = interest_id r"
  by (simp add: record_on_instance_def Let_def)

lemma counters_score [simp]: "counters (r\<lparr>score := s\<rparr>) = counters r"
  by (simp add: counters_def)

lemma counters_unscored: "unscored x = unscored y \<Longrightarrow> counters x = counters y"
  by (metis counters_score unscored_def)

lemma interest_id_unscored: "unscored x = unscored y \<Longrightarrow> interest_id x = interest_id y"
proof -
  assume "unscored x = unscored y"
  then have "interest_id (unscored x) = interest_id (unscored y)" by simp
  then show ?thesis by (simp add: unscored_def)
qed

lemma save_score_ids [simp]: "map interest_id (save_score i s rows) = map interest_id rows"
  by (induction rows) (simp_all add: save_score_def)

lemma save_score_unscored [simp]: "map unscored (save_score i s rows) = map unscored rows"
  by (induction rows) (simp_all add: save_score_def unscored_def)

lemma save_score_filter:
  assumes "\<And>r s. Q (r\<lparr>score := s\<rparr>) = Q r"
  shows "filter Q (save_score i s rows) = save_score i s (filter Q rows)"
  by (induction rows) (simp_all add: save_score_def assms)

lemma save_score_other: "x \<in> set (save_score i s rows) \<Longrightarrow> interest_id x \<noteq> i \<Longrightarrow> x \<in> set rows"
  by (auto simp: save_score_def split: if_splits)

lemma save_score_append: "save_score i s (xs @ ys) = save_score i s xs @ save_score i s ys"
  by (simp add: save_score_def)

lemma save_score_absent: "\<forall>x \<in> set rows. interest_id x \<noteq> i \<Longrightarrow> save_score i s rows = rows"
  by (induction rows) (simp_all add: save_score_def)

lemma fresh_interest_id_new: "x \<in> set rows \<Longrightarrow> interest_id x \<noteq> fresh_interest_id rows"
proof -
  assume "x \<in> set rows"
  then have "interest_id x \<in> set (map interest_id rows)" by simp
  then have "interest_id x \<le> fold max (map interest_id rows) 0" by (rule fold_max_mem)
  then show ?thesis by (simp add: fresh_interest_id_def)
qed

lemma for_category_score [simp]: "for_category u c (r\<lparr>score := s\<rparr>) = for_category u c r"
  by (simp add: for_category_def)

lemma for_tag_score [simp]: "for_tag u t (r\<lparr>score := s\<rparr>) = for_tag u t r"
  by (simp add: for_tag_def)

lemma block_existing:
  assumes d: "distinct (map interest_id rows)" and k: "filter K rows = [r]"
    and K: "\<And>r s. K (r\<lparr>score := s\<rparr>) = K r" and Q: "\<And>r s. Q (r\<lparr>score := s\<rparr>) = Q r"
  shows "block_result ty ts K Q rows
           (save_score (interest_id r) (weighted_score (record_on_instance ty ts r)) rows)"
proof -
  let ?s = "weighted_score (record_on_instance ty ts r)"
  let ?rows' = "save_score (interest_id r) ?s rows"
  have "filter K ?rows' = save_score (interest_id r) ?s [r]"
    using save_score_filter [of K, OF K] k by simp
  then have f: "filter K ?rows' = [r\<lparr>score := ?s\<rparr>]" by (simp add: save_score_def)
  have "map unscored (filter Q ?rows') = map unscored (filter Q rows)"
    using save_score_filter [of Q, OF Q] by simp
  moreover have "\<forall>x \<in> set ?rows'. interest_id x \<noteq> interest_id (r\<lparr>score := ?s\<rparr>) \<longrightarrow> x \<in> set rows"
    using save_score_other by auto
  moreover have "score (r\<lparr>score := ?s\<rparr>) = weighted_score (record_on_instance ty ts (r\<lparr>score := ?s\<rparr>))"
    by (simp add: record_on_instance_score)
  moreover have "counters (r\<lparr>score := ?s\<rparr>) = stored_counters (filter K rows)"
    by (simp add: k stored_counters_def)
  ultimately show ?thesis unfolding block_result_def using d f by auto
qed

lemma block_created:
  assumes d: "distinct (map interest_id rows)" and k: "filter K rows = []"
    and n: "interest_id n = fresh_interest_id rows" "K n" "\<not> Q n" "counters n = (0, 0, 0, 0)"
    and K: "\<And>r s. K (r\<lparr>score := s\<rparr>) = K r" and Q: "\<And>r s. Q (r\<lparr>score := s\<rparr>) = Q r"
  shows "block_result ty ts K Q rows
           (save_score (interest_id n) (weighted_score (record_on_instance ty ts n)) (rows @ [n]))"
proof -
  let ?s = "weighted_score (record_on_instance ty ts n)"
  let ?n' = "n\<lparr>score := ?s\<rparr>"
  have fresh: "\<forall>x \<in> set rows. interest_id x \<noteq> interest_id n"
    using fresh_interest_id_new n(1) by simp
  then have rows': "save_score (interest_id n) ?s (rows @ [n]) = rows @ [?n']"
    by (simp add: save_score_append save_score_absent) (simp add: save_score_def)
  have "distinct (map interest_id (rows @ [?n']))" using d fresh by auto
  moreover have "filter K (rows @ [?n']) = [?n']" using k n(2) by (simp add: K)
  moreover have "score ?n' = weighted_score (record_on_instance ty ts ?n')"
    by (simp add: record_on_instance_score)
  moreover have "counters ?n' = stored_counters (filter K rows)"
    by (simp add: k stored_counters_def n(4))
  moreover have "\<forall>x \<in> set (rows @ [?n']). interest_id x \<noteq> interest_id ?n' \<longrightarrow> x \<in> set rows"
    by auto
  moreover have "map unscored (filter Q (rows @ [?n'])) = map unscored (filter Q rows)"
    using n(3) by (simp add: Q)
  ultimately show ?thesis unfolding block_result_def rows' by blast
qed

lemma track_category_block:
  assumes d: "distinct (map interest_id (interests db))"
    and u: "length (filter (for_category u c) (interests db)) \<le> 1"
    and c: "c \<in> set (categories db)"
  shows "\<exists>db'. track_category ty ts u c db = Inr db' \<and> categories db' = categories db \<and>
           tags db' = tags db \<and>
           block_result ty ts (for_category u c) (for_tag u t) (interests db) (interests db')"
proof -
  from u consider "filter (for_category u c) (interests db) = []"
    | r where "filter (for_category u c) (interests db) = [r]"
    using length_le_one_cases by blast
  then show ?thesis
  proof cases
    case 1
    define n where "n = \<lparr>interest_id = fresh_interest_id (interests db), interest_user = u,
                      category = Some c, tag = None, score = 0, view_count = 0,
                      like_count = 0, share_count = 0, time_spent = 0\<rparr>"
    have t: "track_category ty ts u c db = Inr (db\<lparr>interests :=
        save_score (interest_id n) (weighted_score (record_on_instance ty ts n)) (interests db @ [n])\<rparr>)"
      using 1 c by (simp add: track_category_def get_or_create_category_def calculate_score_def
          Let_def n_def)
    have "block_result ty ts (for_category u c) (for_tag u t) (interests db)
           (save_score (interest_id n) (weighted_score (record_on_instance ty ts n)) (interests db @ [n]))"
      by (rule block_created [OF d 1])
        (simp_all add: n_def for_category_def for_tag_def counters_def)
    with t show ?thesis by simp
  next
    case 2
    have t: "track_category ty ts u c db = Inr (db\<lparr>interests :=
        save_score (interest_id r) (weighted_score (record_on_instance ty ts r)) (interests db)\<rparr>)"
      using 2 by (simp add: track_category_def get_or_create_category_def calculate_score_def Let_def)
    have "block_result ty ts (for_category u c) (for_tag u t) (interests db)
           (save_score (interest_id r) (weighted_score (record_on_instance ty ts r)) (interests db))"
      by (rule block_existing [OF d 2]) simp_all
    with t show ?thesis by simp
  qed
qed

lemma track_tag_block:
  assumes d: "distinct (map interest_id (interests db))"
    and u: "length (filter (for_tag u t) (interests db)) \<le> 1"
    and c: "t \<in> set (tags db)"
  shows "\<exists>db'. track_tag ty ts u t db = Inr db' \<and> categories db' = categories db \<and>
           tags db' = tags db \<and>
           block_result ty ts (for_tag u t) (for_category u c) (interests db) (interests db')"
proof -
  from u consider "filter (for_tag u t) (interests db) = []"
    | r where "filter (for_tag u t) (interests db) = [r]"
    using length_le_one_cases by blast
  then show ?thesis
  proof cases
    case 1
    define n where "n = \<lparr>interest_id = fresh_interest_id (interests db), interest_user = u,
                      category = None, tag = Some t, score = 0, view_count = 0,
                      like_count = 0, share_count = 0, time_spent = 0\<rparr>"
    have t: "track_tag ty ts u t db = Inr (db\<lparr>interests :=
        save_score (interest_id n) (weighted_score (record_on_instance ty ts n)) (interests db @ [n])\<rparr>)"
      using 1 c by (simp add: track_tag_def get_or_create_tag_def calculate_score_def
          Let_def n_def)
    have "block_result ty ts (for_tag u t) (for_category u c) (interests db)
           (save_score (interest_id n) (weighted_score (record_on_instance ty ts n)) (interests db @ [n]))"
      by (rule block_created [OF d 1])
        (simp_all add: n_def for_category_def for_tag_def counters_def)
    with t show ?thesis by simp
  next
    case 2
    have t: "track_tag ty ts u t db = Inr (db\<lparr>interests :=
        save_score (interest_id r) (weighted_score (record_on_instance ty ts r)) (interests db)\<rparr>)"
      using 2 by (simp add: track_tag_def get_or_create_tag_def calculate_score_def Let_def)
    have "block_result ty ts (for_tag u t) (for_category u c) (interests db)
           (save_score (interest_id r) (weighted_score (record_on_instance ty ts r)) (interests db))"
      by (rule block_existing [OF d 2]) simp_all
    with t show ?thesis by simp
  qed
qed

lemma distinct_key_eq:
  "distinct (map f xs) \<Longrightarrow> x \<in> set xs \<Longrightarrow> y \<in> set xs \<Longrightarrow> f x = f y \<Longrightarrow> x = y"
  by (meson distinct_map inj_onD)

lemma singleton_filter_mem: "filter P xs = [x] \<Longrightarrow> x \<in> set xs"
proof -
  assume "filter P xs = [x]"
  then have "x \<in> set (filter P xs)" by simp
  then show ?thesis by simp
qed

lemma stored_counters_unscored:
  "map unscored xs = map unscored ys \<Longrightarrow> stored_counters xs = stored_counters ys"
  by (cases xs; cases ys) (auto simp: stored_counters_def dest: counters_unscored)

lemma track_both:
  assumes d: "distinct (map interest_id (interests db))"
    and uc: "length (filter (for_category u c) (interests db)) \<le> 1"
    and ut: "length (filter (for_tag u t) (interests db)) \<le> 1"
    and c: "c \<in> set (categories db)" and t: "t \<in> set (tags db)"
  shows "\<exists>db1 db2 rc rt.
           track_category ty ts u c db = Inr db1 \<and> track_tag ty ts u t db1 = Inr db2 \<and>
           filter (for_category u c) (interests db2) = [rc] \<and>
           filter (for_tag u t) (interests db2) = [rt] \<and>
           score rc = weighted_score (record_on_instance ty ts rc) \<and>
           counters rc = stored_counters (filter (for_category u c) (interests db)) \<and>
           score rt = weighted_score (record_on_instance ty ts rt) \<and>
           counters rt = stored_counters (filter (for_tag u t) (interests db))"
proof -
  from track_category_block [OF d uc c, of ty ts t] obtain db1 where
    p1: "track_category ty ts u c db = Inr db1" and t1: "tags db1 = tags db"
    and b1: "block_result ty ts (for_category u c) (for_tag u t) (interests db) (interests db1)"
    by blast
  from b1 have d1: "distinct (map interest_id (interests db1))"
    and q1: "map unscored (filter (for_tag u t) (interests db1))
             = map unscored (filter (for_tag u t) (interests db))"
    and ex1: "\<exists>rk. filter (for_category u c) (interests db1) = [rk] \<and>
           score rk = weighted_score (record_on_instance ty ts rk) \<and>
           counters rk = stored_counters (filter (for_category u c) (interests db)) \<and>
           (\<forall>x \<in> set (interests db1). interest_id x \<noteq> interest_id rk \<longrightarrow> x \<in> set (interests db))"
    unfolding block_result_def by simp_all
  from ex1 obtain rc1 where k1: "filter (for_category u c) (interests db1) = [rc1]"
    and s1: "score rc1 = weighted_score (record_on_instance ty ts rc1)"
    and c1: "counters rc1 = stored_counters (filter (for_category u c) (interests db))"
    by (elim exE conjE)
  from q1 have "length (filter (for_tag u t) (interests db1))
                = length (filter (for_tag u t) (interests db))"
    by (rule map_eq_imp_length_eq)
  with ut have ut1: "length (filter (for_tag u t) (interests db1)) \<le> 1" by simp
  from t t1 have tt: "t \<in> set (tags db1)" by simp
  from track_tag_block [OF d1 ut1 tt, of ty ts c] obtain db2 where
    p2: "track_tag ty ts u t db1 = Inr db2"
    and b2: "block_result ty ts (for_tag u t) (for_category u c) (interests db1) (interests db2)"
    by blast
  from b2 have d2: "distinct (map interest_id (interests db2))"
    and q2: "map unscored (filter (for_category u c) (interests db2))
             = map unscored (filter (for_category u c) (interests db1))"
    and ex2: "\<exists>rk. filter (for_tag u t) (interests db2) = [rk] \<and>
           score rk = weighted_score (record_on_instance ty ts rk) \<and>
           counters rk = stored_counters (filter (for_tag u t) (interests db1)) \<and>
           (\<forall>x \<in> set (interests db2). interest_id x \<noteq> interest_id rk \<longrightarrow> x \<in> set (interests db1))"
    unfolding block_result_def by simp_all
  from ex2 obtain rt where k2: "filter (for_tag u t) (interests db2) = [rt]"
    and s2: "score rt = weighted_score (record_on_instance ty ts rt)"
    and c2: "counters rt = stored_counters (filter (for_tag u t) (interests db1))"
    and o2: "\<forall>x \<in> set (interests db2). interest_id x \<noteq> interest_id rt \<longrightarrow> x \<in> set (interests db1)"
    by (elim exE conjE)
  from q2 k1 obtain rc where k3: "filter (for_category u c) (interests db2) = [rc]"
    and e: "unscored rc = unscored rc1"
    by (cases "filter (for_category u c) (interests db2)") auto
  have rc_in: "rc \<in> set (interests db2)" by (rule singleton_filter_mem [OF k3])
  have rc1_in: "rc1 \<in> set (interests db1)" by (rule singleton_filter_mem [OF k1])
  have rt_in: "rt \<in> set (interests db2)" by (rule singleton_filter_mem [OF k2])
  have "score rc = weighted_score (record_on_instance ty ts rc)"
  proof (cases "interest_id rc = interest_id rt")
    case True
    with d2 rc_in rt_in have "rc = rt" by (rule distinct_key_eq)
    with s2 show ?thesis by simp
  next
    case False
    with o2 rc_in have m: "rc \<in> set (interests db1)" by blast
    have i: "interest_id rc = interest_id rc1" using e by (rule interest_id_unscored)
    have "rc = rc1" by (rule distinct_key_eq [OF d1 m rc1_in i])
    with s1 show ?thesis by simp
  qed
  moreover have "counters rc = stored_counters (filter (for_category u c) (interests db))"
    using counters_unscored [OF e] c1 by simp
  moreover have "counters rt = stored_counters (filter (for_tag u t) (interests db))"
    using c2 stored_counters_unscored [OF q1] by simp
  ultimately have "track_category ty ts u c db = Inr db1 \<and> track_tag ty ts u t db1 = Inr db2 \<and>
           filter (for_category u c) (interests db2) = [rc] \<and>
           filter (for_tag u t) (interests db2) = [rt] \<and>
           score rc = weighted_score (record_on_instance ty ts rc) \<and>
           counters rc = stored_counters (filter (for_category u c) (interests db)) \<and>
           score rt = weighted_score (record_on_instance ty ts rt) \<and>
           counters rt = stored_counters (filter (for_tag u t) (interests db))"
    using p1 p2 k3 k2 s2 by simp
  then show ?thesis by (intro exI)
qed

text \<open>
  What the view does achieve: \<open>calculate_score\<close> returns, and sets on the instance, the
  weighted sum of the instance's counters (24 on the row of the scenario), and after a
  request with a category and a tag each of the two rows carries the weighted sum of the
  counters its instance had when the score was computed, the stored counters with this
  interaction added.
\<close>

lemma tracking_scores_from_instance:
  "fst (calculate_score inst rows)
     = of_int (view_count inst) * 1 + of_int (like_count inst) * 5
       + of_int (share_count inst) * 10 + of_int (time_spent inst) / 60 * 2
   \<and> score (fst (snd (calculate_score inst rows))) = fst (calculate_score inst rows)
   \<and> fst (calculate_score scenario_row [scenario_row]) = 24
   \<and> (track_user req = Some usr \<and> track_type req = Some ty \<and> ty \<noteq> [] \<and>
      category_id req = Some c \<and> c \<noteq> 0 \<and> c \<in> set (categories db) \<and>
      tag_id req = Some t \<and> t \<noteq> 0 \<and> t \<in> set (tags db) \<and>
      track_time_spent req = Some ts \<and>
      distinct (map interest_id (interests db)) \<and>
      length (filter (for_category (user_id usr) c) (interests db)) \<le> 1 \<and>
      length (filter (for_tag (user_id usr) t) (interests db)) \<le> 1 \<longrightarrow>
      (\<exists>db' rc rt.
         TrackInteractionView_post req db = Inr db' \<and>
         filter (for_category (user_id usr) c) (interests db') = [rc] \<and>
         filter (for_tag (user_id usr) t) (interests db') = [rt] \<and>
         score rc = weighted_score (record_on_instance ty ts rc) \<and>
         counters rc = stored_counters (filter (for_category (user_id usr) c) (interests db)) \<and>
         score rt = weighted_score (record_on_instance ty ts rt) \<and>
         counters rt = stored_counters (filter (for_tag (user_id usr) t) (interests db))))"
proof (intro conjI impI)
  show "fst (calculate_score inst rows)
     = of_int (view_count inst) * 1 + of_int (like_count inst) * 5
       + of_int (share_count inst) * 10 + of_int (time_spent inst) / 60 * 2"
    by (simp add: calculate_score_def weighted_score_def Let_def)
  show "score (fst (snd (calculate_score inst rows))) = fst (calculate_score inst rows)"
    by (simp add: calculate_score_def Let_def)
  show "fst (calculate_score scenario_row [scenario_row]) = 24"
    by (simp add: calculate_score_def weighted_score_def Let_def scenario_row_def)
next
  assume h: "track_user req = Some usr \<and> track_type req = Some ty \<and> ty \<noteq> [] \<and>
      category_id req = Some c \<and> c \<noteq> 0 \<and> c \<in> set (categories db) \<and>
      tag_id req = Some t \<and> t \<noteq> 0 \<and> t \<in> set (tags db) \<and>
      track_time_spent req = Some ts \<and>
      distinct (map interest_id (interests db)) \<and>
      length (filter (for_category (user_id usr) c) (interests db)) \<le> 1 \<and>
      length (filter (for_tag (user_id usr) t) (interests db)) \<le> 1"
  then have "distinct (map interest_id (interests db))"
    "length (filter (for_category (user_id usr) c) (interests db)) \<le> 1"
    "length (filter (for_tag (user_id usr) t) (interests db)) \<le> 1"
    "c \<in> set (categories db)" "t \<in> set (tags db)" by simp_all
  from track_both [OF this, of ty ts] obtain db1 db2 rc rt where
    r: "track_category ty ts (user_id usr) c db = Inr db1"
       "track_tag ty ts (user_id usr) t db1 = Inr db2"
       "filter (for_category (user_id usr) c) (interests db2) = [rc]"
       "filter (for_tag (user_id usr) t) (interests db2) = [rt]"
       "score rc = weighted_score (record_on_instance ty ts rc)"
       "counters rc = stored_counters (filter (for_category (user_id usr) c) (interests db))"
       "score rt = weighted_score (record_on_instance ty ts rt)"
       "counters rt = stored_counters (filter (for_tag (user_id usr) t) (interests db))"
    by blast
  from h r(1,2) have "TrackInteractionView_post req db = Inr db2"
    by (simp add: TrackInteractionView_post_def falsy_str_def falsy_nat_def Let_def)
  with r show "\<exists>db' rc rt.
         TrackInteractionView_post req db = Inr db' \<and>
         filter (for_category (user_id usr) c) (interests db') = [rc] \<and>
         filter (for_tag (user_id usr) t) (interests db') = [rt] \<and>
         score rc = weighted_score (record_on_instance ty ts rc) \<and>
         counters rc = stored_counters (filter (for_category (user_id usr) c) (interests db)) \<and>
         score rt = weighted_score (record_on_instance ty ts rt) \<and>
         counters rt = stored_counters (filter (for_tag (user_id usr) t) (interests db))"
    by blast
qed

section \<open>Lemmas on push delivery\<close>

text \<open>
  Every active subscription of the user is counted once, as sent or as failed, whatever
  the push service does; and with the truth value of a \<open>requests.Response\<close> the guard
  for a gone endpoint never holds for the statuses 404 and 410.
\<close>

lemma send_loop_counts:
  "send_loop truthy webpush now ss (a, b, fs, subs) = (a', b', fs', subs') \<Longrightarrow>
   a' + b' = a + b + length ss \<and>
   a' = a + length (filter (\<lambda>s. webpush s = Delivered) ss)"
proof (induction ss arbitrary: a b fs subs)
  case Nil
  then show ?case by simp
next
  case (Cons s ss)
  show ?case
  proof (cases "webpush s")
    case Delivered
    with Cons.prems have "send_loop truthy webpush now ss
        (a + 1, b, fs, save_last_used now (sub_id s) subs) = (a', b', fs', subs')" by simp
    from Cons.IH [OF this] Delivered show ?thesis by simp
  next
    case (WebPushException resp)
    show ?thesis
    proof (cases "gone_guard truthy resp")
      case True
      with Cons.prems WebPushException have "send_loop truthy webpush now ss
        (a, b + 1, fs @ [sub_id s], save_inactive (sub_id s) subs) = (a', b', fs', subs')" by simp
      from Cons.IH [OF this] WebPushException show ?thesis by simp
    next
      case False
      with Cons.prems WebPushException have "send_loop truthy webpush now ss
        (a, b + 1, fs, subs) = (a', b', fs', subs')" by simp
      from Cons.IH [OF this] WebPushException show ?thesis by simp
    qed
  next
    case OtherException
    with Cons.prems have "send_loop truthy webpush now ss
        (a, b + 1, fs, subs) = (a', b', fs', subs')" by simp
    from Cons.IH [OF this] OtherException show ?thesis by simp
  qed
qed

lemma send_push_notification_counts:
  "sent (fst (send_push_notification truthy webpush now u subs))
   + failed (fst (send_push_notification truthy webpush now u subs))
   = length (filter (\<lambda>r. sub_user r = u \<and> is_active r) subs)"
proof (cases "filter (\<lambda>r. sub_user r = u \<and> is_active r) subs = []")
  case True
  then show ?thesis by (simp add: send_push_notification_def)
next
  case False
  obtain a b fs t where l: "send_loop truthy webpush now
      (filter (\<lambda>r. sub_user r = u \<and> is_active r) subs) (0, 0, [], subs) = (a, b, fs, t)"
    by (metis prod_cases4)
  from send_loop_counts [OF l] False l show ?thesis
    by (simp add: send_push_notification_def)
qed

lemma requests_never_gone:
  "status_code r \<in> set [404, 410] \<Longrightarrow> \<not> gone_guard requests_truthy (Some r)"
  by (auto simp: gone_guard_def requests_truthy_def)

lemma gone_endpoint_deactivated_if_truthy:
  "map is_active (snd (send_push_notification always_truthy first_gone 9 1 two_devices))
     = [False, True]"
  by (simp add: send_push_notification_def two_devices_def device_def first_gone_def
      gone_guard_def always_truthy_def save_last_used_def save_inactive_def)

section \<open>Lemmas on the push subscription view\<close>

text \<open>
  A request that passes validation names an endpoint no stored row has, so the view
  creates the row: afterwards it is the one row of the endpoint, it belongs to the
  requester, carries the submitted keys and device name, and is active.
\<close>

lemma fresh_sub_id_new: "x \<in> set subs \<Longrightarrow> sub_id x \<noteq> fresh_sub_id subs"
proof -
  assume "x \<in> set subs"
  then have "sub_id x \<in> set (map sub_id subs)" by simp
  then have "sub_id x \<le> fold max (map sub_id subs) 0" by (rule fold_max_mem)
  then show ?thesis by (simp add: fresh_sub_id_def)
qed

lemma subscription_valid_fresh:
  "subscription_is_valid is_url req subs = Inr v \<Longrightarrow> filter (\<lambda>r. endpoint r = vs_endpoint v) subs = []"
  by (auto simp: subscription_is_valid_def filter_empty_conv
      split: option.splits prod.splits if_splits)

lemma valid_subscribe_creates:
  assumes u: "ps_user req = Some usr" and v: "subscription_is_valid is_url req subs = Inr v"
  shows "\<exists>r. PushSubscriptionView_post is_url now req subs = (Inr (r, True), subs @ [r]) \<and>
           filter (\<lambda>x. endpoint x = vs_endpoint v) (subs @ [r]) = [r] \<and>
           sub_user r = user_id usr \<and> endpoint r = vs_endpoint v \<and> p256dh r = vs_p256dh v \<and>
           auth r = vs_auth v \<and>
           device_name r = (case vs_device_name v of None \<Rightarrow> [] | Some d \<Rightarrow> d) \<and>
           is_active r"
  using u v subscription_valid_fresh [OF v]
  by (simp add: PushSubscriptionView_post_def update_or_create_def Let_def)

section \<open>Lemmas on Comment.save\<close>

text \<open>
  With no \<open>content\<close> entry in the cache of relations, \<open>save\<close> marks the comment as
  edited whatever its content. Saving a reply sets the \<open>reply_count\<close> of its parent to
  the number of stored comments whose parent it is.
\<close>

lemma mark_edited_uncached:
  "map_of (fields_cache inst) ''content'' = None \<Longrightarrow>
   is_edited (field_values (mark_edited now inst)) \<and> edited_at (field_values (mark_edited now inst)) = Some now"
  by (simp add: mark_edited_def pk_truthy_def dict_get_def)

lemma replies_count_save_reply_count [simp]:
  "replies_count k (save_reply_count j n rows) = replies_count k rows"
  by (induction rows) (simp_all add: replies_count_def save_reply_count_def)

lemma filter_save_reply_count:
  "filter (\<lambda>x. pk x = k) (save_reply_count k n rows)
     = map (\<lambda>x. x\<lparr>reply_count := n\<rparr>) (filter (\<lambda>x. pk x = k) rows)"
  by (induction rows) (simp_all add: save_reply_count_def)

lemma reply_count_exact:
  assumes p: "filter (\<lambda>x. pk x = k) rows = [p]" and top: "parent p = None"
  shows "\<exists>rows' p'. update_parent (Suc depth) k rows = Inr rows' \<and>
           filter (\<lambda>x. pk x = k) rows' = [p'] \<and>
           reply_count p' = replies_count k rows' \<and> replies_count k rows' = replies_count k rows"
proof -
  let ?rows' = "save_reply_count k (replies_count k rows) rows"
  have u: "update_parent (Suc depth) k rows = Inr ?rows'"
    using p top by (simp add: Let_def)
  have f: "filter (\<lambda>x. pk x = k) ?rows' = [p\<lparr>reply_count := replies_count k rows\<rparr>]"
    by (simp add: filter_save_reply_count p)
  show ?thesis using u f by simp
qed

lemma mark_edited_keeps [simp]:
  "pk (field_values (mark_edited now inst)) = pk (field_values inst)"
  "parent (field_values (mark_edited now inst)) = parent (field_values inst)"
  by (simp_all add: mark_edited_def)

lemma save_all_fields_keeps:
  "pk (fst (save_all_fields now r rows)) = pk r"
  "parent (fst (save_all_fields now r rows)) = parent r"
  by (simp_all add: save_all_fields_def Let_def)

lemma save_all_fields_other:
  "pk r \<noteq> k \<Longrightarrow>
   filter (\<lambda>x. pk x = k) (snd (save_all_fields now r rows)) = filter (\<lambda>x. pk x = k) rows"
proof -
  assume n: "pk r \<noteq> k"
  have "filter (\<lambda>x. pk x = k) (map (\<lambda>x. if pk x = pk r then r' else x) rows)
        = filter (\<lambda>x. pk x = k) rows" if "pk r' = pk r" for r' :: comment_row
    using n that by (induction rows) auto
  then show ?thesis using n by (simp add: save_all_fields_def Let_def)
qed

lemma saved_reply_counts_parent:
  assumes p: "filter (\<lambda>x. pk x = k) rows = [p]" and top: "parent p = None"
    and r: "parent (field_values inst) = Some k" and n: "pk (field_values inst) \<noteq> k"
  shows "\<exists>inst' rows' p'. Comment_save (Suc depth) now inst rows = Inr (inst', rows') \<and>
           filter (\<lambda>x. pk x = k) rows' = [p'] \<and> reply_count p' = replies_count k rows'"
proof -
  obtain r' rows1 where s: "save_all_fields now (field_values (mark_edited now inst)) rows = (r', rows1)"
    by (cases "save_all_fields now (field_values (mark_edited now inst)) rows")
  have par: "parent r' = Some k"
    using save_all_fields_keeps(2) [of now "field_values (mark_edited now inst)" rows] s r by simp
  have "filter (\<lambda>x. pk x = k) rows1 = filter (\<lambda>x. pk x = k) rows"
    using save_all_fields_other [of "field_values (mark_edited now inst)" k now rows] s n by simp
  with p have p1: "filter (\<lambda>x. pk x = k) rows1 = [p]" by simp
  from reply_count_exact [OF p1 top, of depth] obtain rows' p' where
    u: "update_parent (Suc depth) k rows1 = Inr rows'"
    and f: "filter (\<lambda>x. pk x = k) rows' = [p']" "reply_count p' = replies_count k rows'"
    by blast
  have "Comment_save (Suc depth) now inst rows
        = Inr (mark_edited now inst\<lparr>field_values := r',
                 fields_cache := (''parent'', PyInstance k) # fields_cache (mark_edited now inst)\<rparr>, rows')"
    unfolding Comment_save_def Let_def s using par u by simp
  with f show ?thesis by blast
qed

section \<open>Lemmas on the feed builders\<close>

text \<open>
  What the statements after the import compute, in a program whose \<open>news.models\<close> binds
  \<open>Article\<close>: the trending builder answers with the page at the offset of the recent
  published rows in the order of the trending feed, the personalized builder with a
  feed marked as personalized.
\<close>

lemma set_py_slice: "set (py_slice xs s e) \<subseteq> set xs"
  unfolding py_slice_def Let_def
  by (meson order_trans set_drop_subset set_take_subset)

lemma sorted_wrt_py_slice: "sorted_wrt R xs \<Longrightarrow> sorted_wrt R (py_slice xs s e)"
  unfolding py_slice_def Let_def by (simp add: sorted_wrt_drop sorted_wrt_take)

lemma length_py_slice: "0 \<le> k \<Longrightarrow> length (py_slice xs s (s + k)) \<le> nat k"
  unfolding py_slice_def Let_def by (auto simp: min_def max_def)

lemma trending_order_items:
  assumes "art_published_at a \<noteq> None" "art_published_at b \<noteq> None"
    and "trending_key a \<le> trending_key b"
  shows "trending_order (trending_item a) (trending_item b)"
  using assms by (auto simp: trending_order_def trending_item_def trending_key_def less_eq_prod_def)

lemma trending_candidates_sorted:
  "sorted_wrt trending_order
     (map trending_item (sort_key trending_key (filter (is_recent_published now) arts)))"
proof -
  let ?c = "sort_key trending_key (filter (is_recent_published now) arts)"
  have s: "sorted_wrt (\<lambda>a b. trending_key a \<le> trending_key b) ?c"
    using sorted_sort_key [of trending_key "filter (is_recent_published now) arts"]
    by (simp add: sorted_map)
  have p: "\<forall>a \<in> set ?c. art_published_at a \<noteq> None"
    by (auto simp: is_recent_published_def split: option.splits)
  have "sorted_wrt (\<lambda>a b. trending_order (trending_item a) (trending_item b)) ?c"
    by (rule sorted_wrt_mono_rel [OF _ s]) (use p trending_order_items in blast)
  then show ?thesis by (simp add: sorted_wrt_map)
qed

lemma py_slice_offset:
  assumes "0 \<le> s" and "0 \<le> k"
  shows "py_slice xs s (s + k) = take (nat k) (drop (nat s) xs)"
proof (cases "int (length xs) \<le> s")
  case True
  then have "drop (nat s) xs = []" by simp
  moreover from True assms have "py_slice xs s (s + k) = []"
    by (simp add: py_slice_def Let_def min_def)
  ultimately show ?thesis by simp
next
  case False
  with assms have "py_slice xs s (s + k)
      = take (nat (min (s + k) (int (length xs)) - s)) (drop (nat s) xs)"
    by (simp add: py_slice_def Let_def min_def)
  also have "\<dots> = take (nat k) (drop (nat s) xs)"
  proof (cases "s + k \<le> int (length xs)")
    case True
    then show ?thesis by (simp add: min_def)
  next
    case F: False
    then have "min (s + k) (int (length xs)) = int (length xs)" by simp
    moreover have "length (drop (nat s) xs) = nat (int (length xs) - s)"
      using assms(1) by (simp add: nat_diff_distrib')
    moreover have "nat (int (length xs) - s) \<le> nat k" using F by simp
    ultimately show ?thesis by simp
  qed
  finally show ?thesis .
qed

lemma trending_feed_ok:
  assumes "0 \<le> psize" and imp: "''Article'' \<in> set ns"
  shows "\<exists>r cands. get_trending_feed ns now arts psize pg = Inr r \<and> algorithm r = ''trending'' \<and>
           page_size r = psize \<and> page r = pg \<and> total r = length cands \<and>
           length cands \<le> nat (psize * 2) \<and>
           (\<forall>i \<in> set cands. \<exists>a \<in> set arts. i = trending_item a \<and> is_recent_published now a) \<and>
           sorted_wrt trending_order cands \<and>
           (1 \<le> pg \<longrightarrow> feed r = take (nat psize) (drop (nat ((pg - 1) * psize)) cands)) \<and>
           set (feed r) \<subseteq> set cands \<and> sorted_wrt trending_order (feed r) \<and>
           length (feed r) \<le> nat psize"
proof -
  let ?c = "take (nat (psize * 2)) (sort_key trending_key (filter (is_recent_published now) arts))"
  let ?content = "map trending_item ?c"
  let ?r = "\<lparr>feed = py_slice ?content ((pg - 1) * psize) ((pg - 1) * psize + psize), page = pg,
             page_size = psize, total = length ?content, algorithm = ''trending''\<rparr>"
  have g: "get_trending_feed ns now arts psize pg = Inr ?r"
    using assms by (simp add: get_trending_feed_def import_from_def queryset_limit_def Let_def)
  have sub: "set ?c \<subseteq> set (filter (is_recent_published now) arts)"
    using set_take_subset [of "nat (psize * 2)"
        "sort_key trending_key (filter (is_recent_published now) arts)"] by simp
  have m: "\<exists>a \<in> set arts. i = trending_item a \<and> is_recent_published now a"
    if "i \<in> set ?content" for i
  proof -
    from that obtain a where a: "a \<in> set ?c" "i = trending_item a" by auto
    from a(1) sub have "a \<in> set (filter (is_recent_published now) arts)" by blast
    then have "a \<in> set arts" "is_recent_published now a" by simp_all
    with a(2) show ?thesis by blast
  qed
  have s: "sorted_wrt trending_order ?content"
    using trending_candidates_sorted [of now arts]
    by (simp add: take_map [symmetric] sorted_wrt_take del: take_map)
  have off: "feed ?r = take (nat psize) (drop (nat ((pg - 1) * psize)) ?content)" if "1 \<le> pg"
  proof -
    from that assms have "0 \<le> (pg - 1) * psize" by simp
    from py_slice_offset [OF this assms(1)] show ?thesis by simp
  qed
  have "algorithm ?r = ''trending''" "page_size ?r = psize" "page ?r = pg"
    "total ?r = length ?content" by simp_all
  moreover have "length ?content \<le> nat (psize * 2)" by simp
  moreover have "\<forall>i \<in> set ?content. \<exists>a \<in> set arts. i = trending_item a \<and> is_recent_published now a"
    using m by blast
  moreover have "set (feed ?r) \<subseteq> set ?content"
    using set_py_slice [of ?content] by simp
  moreover have "sorted_wrt trending_order (feed ?r)" using s by (simp add: sorted_wrt_py_slice)
  moreover have "length (feed ?r) \<le> nat psize" using assms by (simp add: length_py_slice)
  ultimately have "get_trending_feed ns now arts psize pg = Inr ?r \<and> algorithm ?r = ''trending'' \<and>
           page_size ?r = psize \<and> page ?r = pg \<and> total ?r = length ?content \<and>
           length ?content \<le> nat (psize * 2) \<and>
           (\<forall>i \<in> set ?content. \<exists>a \<in> set arts. i = trending_item a \<and> is_recent_published now a) \<and>
           sorted_wrt trending_order ?content \<and>
           (1 \<le> pg \<longrightarrow> feed ?r = take (nat psize) (drop (nat ((pg - 1) * psize)) ?content)) \<and>
           set (feed ?r) \<subseteq> set ?content \<and> sorted_wrt trending_order (feed ?r) \<and>
           length (feed ?r) \<le> nat psize"
    using g s off by blast
  then show ?thesis by (intro exI)
qed

lemma personalized_feed_ok:
  assumes "0 \<le> psize" and "''Article'' \<in> set ns"
  shows "\<exists>r. get_personalized_feed ns now arts ints u psize pg = Inr r \<and>
           algorithm r = ''personalized''"
  using assms
  by (simp add: get_personalized_feed_def import_from_def queryset_limit_def Let_def)

section \<open>Like and Dislike exclude each other through the toggle views\<close>

text \<open>
  Claim C1, as the code has it. Through the two generic toggle views, for a request that
  resolves to \<open>(u, ct, oid)\<close>: from a state where the pair has at most one Like row and
  does not hold both a Like and a Dislike, \<open>LikeToggleView.post\<close> followed by
  \<open>DislikeToggleView.post\<close> leaves no Like row and exactly one Dislike row for the pair;
  neither view ever takes a pair without both relations to a state with both; and a
  created Like leaves no Dislike of the pair, a created Dislike no Like.
\<close>

theorem generic_like_dislike_exclusive:
  assumes "resolve_target req db = Inr (u, ct, oid)"
  shows "(length (filter_rows u ct oid (likes db)) \<le> 1 \<and> \<not> both_present u ct oid db \<longrightarrow>
           (\<exists>flag db1 db2.
              LikeToggleView_post t1 req db = Inr (flag, db1) \<and>
              DislikeToggleView_post t2 req db1 = Inr (True, db2) \<and>
              filter_rows u ct oid (likes db2) = [] \<and>
              length (filter_rows u ct oid (dislikes db2)) = 1))
       \<and> (\<forall>flag db' u' ct' oid'.
             LikeToggleView_post t1 req db = Inr (flag, db') \<and> \<not> both_present u' ct' oid' db
             \<longrightarrow> \<not> both_present u' ct' oid' db')
       \<and> (\<forall>flag db' u' ct' oid'.
             DislikeToggleView_post t1 req db = Inr (flag, db') \<and> \<not> both_present u' ct' oid' db
             \<longrightarrow> \<not> both_present u' ct' oid' db')
       \<and> (\<forall>db'. LikeToggleView_post t1 req db = Inr (True, db')
             \<longrightarrow> exists_row u ct oid (likes db') \<and> \<not> exists_row u ct oid (dislikes db'))
       \<and> (\<forall>db'. DislikeToggleView_post t1 req db = Inr (True, db')
             \<longrightarrow> exists_row u ct oid (dislikes db') \<and> \<not> exists_row u ct oid (likes db'))"
proof (intro conjI allI impI)
  assume "length (filter_rows u ct oid (likes db)) \<le> 1 \<and> \<not> both_present u ct oid db"
  with assms show "\<exists>flag db1 db2.
              LikeToggleView_post t1 req db = Inr (flag, db1) \<and>
              DislikeToggleView_post t2 req db1 = Inr (True, db2) \<and>
              filter_rows u ct oid (likes db2) = [] \<and>
              length (filter_rows u ct oid (dislikes db2)) = 1"
    using like_then_dislike by blast
next
  fix flag db' u' ct' oid'
  assume "LikeToggleView_post t1 req db = Inr (flag, db') \<and> \<not> both_present u' ct' oid' db"
  then show "\<not> both_present u' ct' oid' db'" using like_post_keeps_exclusive by blast
next
  fix flag db' u' ct' oid'
  assume "DislikeToggleView_post t1 req db = Inr (flag, db') \<and> \<not> both_present u' ct' oid' db"
  then show "\<not> both_present u' ct' oid' db'" using dislike_post_keeps_exclusive by blast
next
  fix db' assume p: "LikeToggleView_post t1 req db = Inr (True, db')"
  with assms obtain like likes' where
    goc: "get_or_create t1 u ct oid (likes db) = Inr (like, True, likes')"
    and db': "db' = db\<lparr>likes := likes', dislikes := filter_delete u ct oid (dislikes db)\<rparr>"
    by (auto simp: LikeToggleView_post_def split: sum.splits if_splits)
  from goc have "likes' = likes db @ [like]" "matches u ct oid like"
    using get_or_create_created by blast+
  with db' show "exists_row u ct oid (likes db')"
    by (simp add: exists_row_snoc)
  from db' show "\<not> exists_row u ct oid (dislikes db')"
    by (simp add: exists_row_def filter_rows_filter_delete_same)
next
  fix db' assume p: "DislikeToggleView_post t1 req db = Inr (True, db')"
  with assms obtain dislike dislikes' where
    goc: "get_or_create t1 u ct oid (dislikes db) = Inr (dislike, True, dislikes')"
    and db': "db' = db\<lparr>dislikes := dislikes', likes := filter_delete u ct oid (likes db)\<rparr>"
    by (auto simp: DislikeToggleView_post_def split: sum.splits if_splits)
  from goc have "dislikes' = dislikes db @ [dislike]" "matches u ct oid dislike"
    using get_or_create_created by blast+
  with db' show "exists_row u ct oid (dislikes db')"
    by (simp add: exists_row_snoc)
  from db' show "\<not> exists_row u ct oid (likes db')"
    by (simp add: exists_row_def filter_rows_filter_delete_same)
qed

theorem generic_like_dislike_exclusive_witness:
  "resolve_target reader_request sample_db = Inr (1, 7, ''a1'')
   \<and> length (filter_rows 1 7 ''a1'' (likes sample_db)) \<le> 1
   \<and> \<not> both_present 1 7 ''a1'' sample_db
   \<and> (\<exists>flag db1 db2.
              LikeToggleView_post 1 reader_request sample_db = Inr (flag, db1) \<and>
              DislikeToggleView_post 2 reader_request db1 = Inr (True, db2) \<and>
              filter_rows 1 7 ''a1'' (likes db2) = [] \<and>
              length (filter_rows 1 7 ''a1'' (dislikes db2)) = 1)"
proof -
  have h: "resolve_target reader_request sample_db = Inr (1, 7, ''a1'')"
    by (rule sample_resolve)
  have a: "length (filter_rows 1 7 ''a1'' (likes sample_db)) \<le> 1"
    by (simp add: sample_db_def filter_rows_def)
  have b: "\<not> both_present 1 7 ''a1'' sample_db"
    by (simp add: both_present_def exists_row_def sample_db_def filter_rows_def)
  from generic_like_dislike_exclusive [OF h, of 1 2] a b h show ?thesis by blast
qed

text \<open>
  The claim as stated fails once the like action of an article is among the requests:
  \<open>NewsArticleViewSet.like\<close> creates a Like and leaves the Dislike of the same pair in
  place. After a dislike through \<open>DislikeToggleView\<close> and a like through the article's
  action both rows are stored; the toggle of Like then Dislike from that state removes
  both and leaves no Dislike.
\<close>

theorem like_dislike_both_present_counterexample:
  "and_then (DislikeToggleView_post 1 reader_request sample_db)
          (NewsArticleViewSet_like 2 7 (Some reader) ''budget'')
   = Inr (True, sample_db\<lparr>
       likes := [\<lparr>pk = 1, owner = 1, content_type = 7, object_id = ''a1'', created_at = 2\<rparr>],
       dislikes := [\<lparr>pk = 1, owner = 1, content_type = 7, object_id = ''a1'', created_at = 1\<rparr>],
       articles := [sample_article\<lparr>likes_count := 1\<rparr>]\<rparr>)
  \<and> and_then (and_then (and_then (DislikeToggleView_post 1 reader_request sample_db)
          (NewsArticleViewSet_like 2 7 (Some reader) ''budget''))
          (LikeToggleView_post 3 reader_request)) (DislikeToggleView_post 4 reader_request)
   = Inr (False, sample_db\<lparr>articles := [sample_article\<lparr>likes_count := 1\<rparr>]\<rparr>)"
  by code_simp

section \<open>What a toggle does to the record and to the counter\<close>

text \<open>
  Claim C2, as the code has it. A generic toggle view (Like, Dislike, Bookmark) on a
  request that resolves to \<open>(u, ct, oid)\<close>: with no row of the kind for the pair it
  creates the row and answers \<open>True\<close>; with one row it deletes the row and answers
  \<open>False\<close>; in neither case does a counter of an article change. The like action of an
  article creates the Like, adds one to \<open>likes_count\<close> and answers \<open>True\<close>; with a
  Like stored and a positive counter it deletes the Like, takes one from the counter and
  answers \<open>False\<close>.
\<close>

theorem toggle_record_and_counter:
  "(resolve_target req db = Inr (u, ct, oid) \<longrightarrow>
      (filter_rows u ct oid (table k db) = [] \<longrightarrow>
         (\<exists>db'. toggle k now req db = Inr (True, db') \<and>
                length (filter_rows u ct oid (table k db')) = 1 \<and> articles db' = articles db))
    \<and> (length (filter_rows u ct oid (table k db)) = 1 \<longrightarrow>
         (\<exists>db'. toggle k now req db = Inr (False, db') \<and>
                filter_rows u ct oid (table k db') = [] \<and> articles db' = articles db)))
   \<and> (get_object usr sl (articles db) = Inr a \<and> distinct (map article_id (articles db)) \<longrightarrow>
      (filter_rows (user_id usr) nct (article_id a) (likes db) = [] \<longrightarrow>
         (\<exists>db'. NewsArticleViewSet_like now nct (Some usr) sl db = Inr (True, db') \<and>
                length (filter_rows (user_id usr) nct (article_id a) (likes db')) = 1 \<and>
                get_object usr sl (articles db') = Inr (a\<lparr>likes_count := likes_count a + 1\<rparr>)))
    \<and> (length (filter_rows (user_id usr) nct (article_id a) (likes db)) = 1 \<and> 0 < likes_count a \<longrightarrow>
         (\<exists>db'. NewsArticleViewSet_like now nct (Some usr) sl db = Inr (False, db') \<and>
                filter_rows (user_id usr) nct (article_id a) (likes db') = [] \<and>
                get_object usr sl (articles db') = Inr (a\<lparr>likes_count := likes_count a - 1\<rparr>))))"
  using toggle_create [of req db u ct oid k now] toggle_delete [of req db u ct oid k now]
    article_like_counter [of usr sl db a nct now]
  by blast

theorem toggle_record_and_counter_witness:
  "resolve_target reader_request sample_db = Inr (1, 7, ''a1'')
   \<and> filter_rows 1 7 ''a1'' (table Bookmark sample_db) = []
   \<and> (\<exists>db'. toggle Bookmark 5 reader_request sample_db = Inr (True, db') \<and>
            length (filter_rows 1 7 ''a1'' (table Bookmark db')) = 1 \<and>
            articles db' = articles sample_db)
   \<and> resolve_target reader_request sample_db_liked = Inr (1, 7, ''a1'')
   \<and> length (filter_rows 1 7 ''a1'' (table Like sample_db_liked)) = 1
   \<and> (\<exists>db'. toggle Like 5 reader_request sample_db_liked = Inr (False, db') \<and>
            filter_rows 1 7 ''a1'' (table Like db') = [] \<and>
            articles db' = articles sample_db_liked)
   \<and> get_object reader ''budget'' (articles sample_db) = Inr sample_article
   \<and> distinct (map article_id (articles sample_db))
   \<and> filter_rows (user_id reader) 7 (article_id sample_article) (likes sample_db) = []
   \<and> (\<exists>db'. NewsArticleViewSet_like 5 7 (Some reader) ''budget'' sample_db = Inr (True, db') \<and>
            length (filter_rows (user_id reader) 7 (article_id sample_article) (likes db')) = 1 \<and>
            get_object reader ''budget'' (articles db')
              = Inr (sample_article\<lparr>likes_count := likes_count sample_article + 1\<rparr>))
   \<and> get_object reader ''budget'' (articles sample_db_liked)
        = Inr (sample_article\<lparr>likes_count := 1\<rparr>)
   \<and> distinct (map article_id (articles sample_db_liked))
   \<and> length (filter_rows (user_id reader) 7 (article_id (sample_article\<lparr>likes_count := 1\<rparr>))
               (likes sample_db_liked)) = 1
   \<and> 0 < likes_count (sample_article\<lparr>likes_count := 1\<rparr>)
   \<and> (\<exists>db'. NewsArticleViewSet_like 5 7 (Some reader) ''budget'' sample_db_liked = Inr (False, db') \<and>
            filter_rows (user_id reader) 7 (article_id (sample_article\<lparr>likes_count := 1\<rparr>))
              (likes db') = [] \<and>
            get_object reader ''budget'' (articles db')
              = Inr (sample_article\<lparr>likes_count := 1, likes_count := 1 - 1\<rparr>))"
proof -
  have h1: "resolve_target reader_request sample_db = Inr (1, 7, ''a1'')"
    by (rule sample_resolve)
  have h2: "filter_rows 1 7 ''a1'' (table Bookmark sample_db) = []"
    by (simp add: sample_db_def filter_rows_def)
  have h3: "resolve_target reader_request sample_db_liked = Inr (1, 7, ''a1'')"
    by (rule sample_liked_resolve)
  have h4: "length (filter_rows 1 7 ''a1'' (table Like sample_db_liked)) = 1"
    by (simp add: sample_db_liked_def filter_rows_def matches_def)
  have h5: "get_object reader ''budget'' (articles sample_db) = Inr sample_article"
    by (rule sample_get_object)
  have h6: "distinct (map article_id (articles sample_db))"
    by (simp add: sample_db_def)
  have h7: "filter_rows (user_id reader) 7 (article_id sample_article) (likes sample_db) = []"
    by (simp add: sample_db_def filter_rows_def)
  have h8: "get_object reader ''budget'' (articles sample_db_liked)
        = Inr (sample_article\<lparr>likes_count := 1\<rparr>)"
    by (rule sample_liked_get_object)
  have h9: "distinct (map article_id (articles sample_db_liked))"
    by (simp add: sample_db_liked_def)
  have h10: "length (filter_rows (user_id reader) 7 (article_id (sample_article\<lparr>likes_count := 1\<rparr>))
               (likes sample_db_liked)) = 1"
    by (simp add: sample_db_liked_def filter_rows_def matches_def reader_def sample_article_def)
  have h11: "0 < likes_count (sample_article\<lparr>likes_count := 1\<rparr>)" by simp
  note t1 = toggle_record_and_counter [of reader_request sample_db 1 7 "''a1''" Bookmark 5
      reader "''budget''" sample_article 7]
  note t2 = toggle_record_and_counter [of reader_request sample_db_liked 1 7 "''a1''" Like 5
      reader "''budget''" "sample_article\<lparr>likes_count := 1\<rparr>" 7]
  from t1 h1 h2 have c1: "\<exists>db'. toggle Bookmark 5 reader_request sample_db = Inr (True, db') \<and>
            length (filter_rows 1 7 ''a1'' (table Bookmark db')) = 1 \<and>
            articles db' = articles sample_db" by blast
  from t2 h3 h4 have c2: "\<exists>db'. toggle Like 5 reader_request sample_db_liked = Inr (False, db') \<and>
            filter_rows 1 7 ''a1'' (table Like db') = [] \<and>
            articles db' = articles sample_db_liked" by blast
  from t1 h5 h6 h7 have c3: "\<exists>db'. NewsArticleViewSet_like 5 7 (Some reader) ''budget'' sample_db = Inr (True, db') \<and>
            length (filter_rows (user_id reader) 7 (article_id sample_article) (likes db')) = 1 \<and>
            get_object reader ''budget'' (articles db')
              = Inr (sample_article\<lparr>likes_count := likes_count sample_article + 1\<rparr>)" by blast
  from t2 h8 h9 h10 h11 have c4: "\<exists>db'. NewsArticleViewSet_like 5 7 (Some reader) ''budget'' sample_db_liked = Inr (False, db') \<and>
            filter_rows (user_id reader) 7 (article_id (sample_article\<lparr>likes_count := 1\<rparr>))
              (likes db') = [] \<and>
            get_object reader ''budget'' (articles db')
              = Inr (sample_article\<lparr>likes_count := 1, likes_count := 1 - 1\<rparr>)"
    by (simp del: One_nat_def)
  from h1 h2 c1 h3 h4 c2 h5 h6 h7 c3 h8 h9 h10 h11 c4 show ?thesis by blast
qed

text \<open>
  The claim as stated fails on \<open>LikeToggleView.post\<close>: the view creates the Like and
  answers \<open>True\<close>, and the article's \<open>likes_count\<close> is 0 before and after.
\<close>

theorem generic_like_leaves_counter_counterexample:
  "LikeToggleView_post 1 reader_request sample_db
     = Inr (True, sample_db\<lparr>likes :=
         [\<lparr>pk = 1, owner = 1, content_type = 7, object_id = ''a1'', created_at = 1\<rparr>]\<rparr>)
   \<and> map likes_count (articles sample_db) = [0]
   \<and> map likes_count (articles (sample_db\<lparr>likes :=
         [\<lparr>pk = 1, owner = 1, content_type = 7, object_id = ''a1'', created_at = 1\<rparr>]\<rparr>)) = [0]"
  by code_simp

section \<open>Liking twice is a round trip\<close>




section \<open>The interest score and the stored counters\<close>

text \<open>
  Claim C4, evaluated on the row of its scenario: the user has a tag row with 10 views,
  2 likes, no share and 120 seconds, and tracks a view of 60 seconds for that tag and
  for a category. The claim says the recomputed score is the weighted sum of the row's
  counters. The code adds the view and the seconds to the instance only and then calls
  \<open>save(update_fields=['score'])\<close>: the tag row keeps the counters 10, 2, 0 and 120,
  whose weighted sum is 24, and is given the score 27; the new category row has every
  counter 0 and the score 3.
\<close>

theorem tracked_counters_not_stored:
  "TrackInteractionView_post scenario_request scenario_db
     = Inr \<lparr>categories = [2], tags = [3],
            interests =
              [scenario_row\<lparr>score := 27\<rparr>,
               \<lparr>interest_id = 2, interest_user = 1, category = Some 2, tag = None,
                score = 3, view_count = 0, like_count = 0, share_count = 0,
                time_spent = 0\<rparr>]\<rparr>
   \<and> counters (scenario_row\<lparr>score := 27\<rparr>) = (10, 2, 0, 120)
   \<and> weighted_score (scenario_row\<lparr>score := 27\<rparr>) = 24
   \<and> weighted_score
        \<lparr>interest_id = 2, interest_user = 1, category = Some 2, tag = None, score = 3,
         view_count = 0, like_count = 0, share_count = 0, time_spent = 0\<rparr> = 0"
  by code_simp

section \<open>A gone endpoint stays active\<close>

text \<open>
  Claim C5, evaluated on its own scenario: a user with two active subscriptions, the push
  service answering 410 Gone for the first and accepting the second. The result is
  \<open>sent = 1\<close>, \<open>failed = 1\<close> as the claim says, but the first subscription is still
  active afterwards and \<open>failed_subscriptions\<close> is empty: the response of a 410 is false
  as a Python truth value, so \<open>e.response and ...\<close> never reaches the status test.
\<close>

theorem gone_endpoint_stays_active:
  "send_push_notification requests_truthy first_gone 9 1 two_devices
     = (\<lparr>sent = 1, failed = 1, failed_subscriptions = Some []\<rparr>,
        [device 1 ''https://push.example/gone'',
         (device 2 ''https://push.example/ok'')\<lparr>last_used := 9\<rparr>])
   \<and> map is_active (snd (send_push_notification requests_truthy first_gone 9 1 two_devices))
     = [True, True]"
  by (simp add: send_push_notification_def two_devices_def device_def first_gone_def
      gone_guard_def requests_truthy_def save_last_used_def)

section \<open>The recommended feed raises ImportError\<close>

text \<open>
  Claim C6, evaluated on the repository as it is. The claim says an anonymous request
  receives the trending feed and an authenticated one the personalized feed. Both
  builders import \<open>Article\<close> from \<open>news.models\<close>, which binds no such name, so the view
  raises \<open>ImportError\<close> for every request: for every caller, page and page size, and
  whatever is stored.
\<close>

theorem recommended_feed_import_error:
  "RecommendedFeedView_get news_models now arts ints req = Inl ImportError"
proof -
  have "import_from news_models ''Article'' = Inl ImportError"
    by (simp add: import_from_def news_models_def)
  then show ?thesis
    by (simp add: RecommendedFeedView_get_def get_trending_feed_def get_personalized_feed_def
        Let_def split: option.splits)
qed

section \<open>One review per user and target\<close>

text \<open>
  Claim C7. The POST of \<open>ReviewListCreateView\<close> keeps the reviews unique per user,
  content type and object id. A valid submission by a user who already has a review of
  the target is rejected with the \<open>IntegrityError\<close> of the unique constraint and the
  database is left exactly as it was; so a first valid submission is stored, and a second
  one by the same user for the same target, whatever its rating and text, is rejected
  and changes nothing.
\<close>

theorem one_review_per_user_and_target:
  "(unique_together (reviews db) \<longrightarrow>
      unique_together (reviews (snd (ReviewListCreateView_post now req db))))
   \<and> (rv_user req = Some usr \<and> is_valid req db = Inr v \<and>
      exists_row (user_id usr) (v_content_type v) (v_object_id v) (reviews db) \<longrightarrow>
      ReviewListCreateView_post now req db = (Inl IntegrityError, db))
   \<and> (rv_user req = Some usr \<and> rv_user req2 = Some usr \<and>
      is_valid req db = Inr v \<and> is_valid req2 db = Inr v2 \<and>
      v_content_type v2 = v_content_type v \<and> v_object_id v2 = v_object_id v \<and>
      \<not> exists_row (user_id usr) (v_content_type v) (v_object_id v) (reviews db) \<longrightarrow>
      (\<exists>r db1. ReviewListCreateView_post now req db = (Inr r, db1) \<and>
               reviews db1 = reviews db @ [r] \<and>
               ReviewListCreateView_post t2 req2 db1 = (Inl IntegrityError, db1)))"
  using review_post_unique [of db now req] review_post_duplicate [of req usr db v now]
    review_post_twice [of req usr req2 db v v2 now t2]
  by blast

theorem one_review_per_user_and_target_witness:
  "unique_together (reviews sample_db)
   \<and> rv_user (reader_review 4 ''good'') = Some reader
   \<and> rv_user (reader_review 1 ''bad'') = Some reader
   \<and> is_valid (reader_review 4 ''good'') sample_db =
       Inr \<lparr>v_content_type = 7, v_object_id = ''a1'', v_rating = 4, v_title = [], v_comment = ''good''\<rparr>
   \<and> is_valid (reader_review 1 ''bad'') sample_db =
       Inr \<lparr>v_content_type = 7, v_object_id = ''a1'', v_rating = 1, v_title = [], v_comment = ''bad''\<rparr>
   \<and> \<not> exists_row (user_id reader) 7 ''a1'' (reviews sample_db)
   \<and> unique_together (reviews (snd (ReviewListCreateView_post 1 (reader_review 4 ''good'') sample_db)))
   \<and> (\<exists>r db1. ReviewListCreateView_post 1 (reader_review 4 ''good'') sample_db = (Inr r, db1) \<and>
               reviews db1 = reviews sample_db @ [r] \<and>
               ReviewListCreateView_post 2 (reader_review 1 ''bad'') db1 = (Inl IntegrityError, db1))"
proof -
  have h0: "unique_together (reviews sample_db)" by (simp add: unique_together_def sample_db_def)
  have h1: "rv_user (reader_review 4 ''good'') = Some reader" by (simp add: reader_review_def)
  have h2: "rv_user (reader_review 1 ''bad'') = Some reader" by (simp add: reader_review_def)
  have h3: "\<not> exists_row (user_id reader) 7 ''a1'' (reviews sample_db)"
    by (simp add: exists_row_def filter_rows_def sample_db_def)
  note t = one_review_per_user_and_target [of sample_db 1 "reader_review 4 ''good''" reader
      "\<lparr>v_content_type = 7, v_object_id = ''a1'', v_rating = 4, v_title = [], v_comment = ''good''\<rparr>"
      "reader_review 1 ''bad''"
      "\<lparr>v_content_type = 7, v_object_id = ''a1'', v_rating = 1, v_title = [], v_comment = ''bad''\<rparr>" 2]
  from t h0 have c1: "unique_together (reviews (snd (ReviewListCreateView_post 1 (reader_review 4 ''good'') sample_db)))"
    by blast
  from t h1 h2 h3 sample_is_valid sample_is_valid2
  have c2: "\<exists>r db1. ReviewListCreateView_post 1 (reader_review 4 ''good'') sample_db = (Inr r, db1) \<and>
               reviews db1 = reviews sample_db @ [r] \<and>
               ReviewListCreateView_post 2 (reader_review 1 ''bad'') db1 = (Inl IntegrityError, db1)"
    by simp
  from h0 h1 h2 h3 sample_is_valid sample_is_valid2 c1 c2 show ?thesis by blast
qed

section \<open>The statistics of a target reviewed by the caller\<close>

text \<open>
  Claim C8, evaluated on the view. The claim says the statistics query reports, for
  every target, the number of approved reviews and the rounded mean of their ratings.
  The target \<open>a1\<close> has three approved reviews, with ratings 4, 5 and 5, and one that is
  not approved. For \<open>reader\<close>, who has written the first of them, \<open>InteractionStatsView.get\<close>
  raises \<open>AttributeError\<close> and reports nothing, whatever float the database returns and
  however \<open>round\<close> rounds. For an anonymous caller and for \<open>visitor\<close>, who has written no
  review of the target, the same query reports 3 reviews and the rounded float of 14/3.
\<close>

theorem stats_own_review_attribute_error:
  "InteractionStatsView_get fl rnd (stats_query (Some reader)) reviewed_db = Inl AttributeError
   \<and> (\<exists>s. InteractionStatsView_get fl rnd (stats_query None) reviewed_db = Inr s
          \<and> reviews_count s = 3 \<and> user_review s = None
          \<and> average_rating s = round_or_zero rnd (Some (fl (14 / 3))))
   \<and> (\<exists>s. InteractionStatsView_get fl rnd (stats_query (Some visitor)) reviewed_db = Inr s
          \<and> reviews_count s = 3 \<and> user_review s = None
          \<and> average_rating s = round_or_zero rnd (Some (fl (14 / 3))))"
proof -
  have ct: "7 \<in> set (content_types reviewed_db)" by (simp add: reviewed_db_def sample_db_def)
  have own: "filter_rows (user_id reader) 7 ''a1'' (reviews reviewed_db) = [review_of 1 1 4 True]"
    by (simp add: filter_rows_def matches_def reviewed_db_def review_of_def reader_def)
  have none: "filter_rows (user_id visitor) 7 ''a1'' (reviews reviewed_db) = []"
    by (simp add: filter_rows_def matches_def reviewed_db_def review_of_def visitor_def)
  have "approved_reviews 7 ''a1'' (reviews reviewed_db) \<noteq> []"
    by (simp add: reviewed_db_approved)
  then have avg: "Avg_rating fl (approved_reviews 7 ''a1'' (reviews reviewed_db)) = Some (fl (14 / 3))"
    by (simp only: Avg_rating_def reviewed_db_mean if_False)
  have len: "length (approved_reviews 7 ''a1'' (reviews reviewed_db)) = 3"
    by (simp add: reviewed_db_approved)
  have a: "InteractionStatsView_get fl rnd (stats_query (Some reader)) reviewed_db = Inl AttributeError"
    using ct own
    by (simp add: InteractionStatsView_get_def InteractionStatsSerializer_data_def
        user_review_data_def ReviewSerializer_to_representation_def get_user_review_def
        stats_query_def falsy_str_def Let_def)
  have b: "\<exists>s. InteractionStatsView_get fl rnd (stats_query None) reviewed_db = Inr s
          \<and> reviews_count s = 3 \<and> user_review s = None
          \<and> average_rating s = round_or_zero rnd (Some (fl (14 / 3)))"
    using ct avg len
    by (simp add: InteractionStatsView_get_def InteractionStatsSerializer_data_def
        stats_query_def falsy_str_def Let_def)
  have c: "\<exists>s. InteractionStatsView_get fl rnd (stats_query (Some visitor)) reviewed_db = Inr s
          \<and> reviews_count s = 3 \<and> user_review s = None
          \<and> average_rating s = round_or_zero rnd (Some (fl (14 / 3)))"
    using ct avg len none
    by (simp add: InteractionStatsView_get_def InteractionStatsSerializer_data_def
        user_review_data_def get_user_review_def stats_query_def falsy_str_def Let_def)
  from a b c show ?thesis by (intro conjI)
qed

section \<open>Saving a comment whose content did not change\<close>

text \<open>
  Claim C9, evaluated on a save that changes nothing: a stored comment that was never
  edited is loaded and saved as it is. The claim says \<open>is_edited\<close> and \<open>edited_at\<close> stay
  as they were; the code sets \<open>is_edited\<close> and stamps \<open>edited_at\<close>, because it compares
  the content with \<open>_state.fields_cache.get('content')\<close>, which is \<open>None\<close>: that cache
  holds the instances of relations, never the stored content.
\<close>

theorem unchanged_content_marked_edited:
  "Comment_save 1000 9 (from_db stored_comment) [stored_comment]
     = Inr (from_db (stored_comment\<lparr>is_edited := True, edited_at := Some 9,
                                    comment_updated_at := 9\<rparr>),
            [stored_comment\<lparr>is_edited := True, edited_at := Some 9,
                            comment_updated_at := 9\<rparr>])
   \<and> content (field_values (from_db stored_comment)) = content stored_comment
   \<and> \<not> is_edited stored_comment \<and> edited_at stored_comment = None"
  by (simp add: Comment_save_def mark_edited_def pk_truthy_def dict_get_def from_db_def
      save_all_fields_def stored_comment_def Let_def)

section \<open>Subscribing an endpoint that is already stored\<close>

text \<open>
  Claim C10, evaluated where it says the stored row is reassigned: user 2 subscribes an
  endpoint that an inactive row of user 1 holds. Validation rejects the request, because
  the serializer checks the uniqueness of \<open>endpoint\<close> before \<open>update_or_create\<close> is
  reached; the table is unchanged, and the row still belongs to user 1 and is inactive.
\<close>

theorem resubscribed_endpoint_rejected:
  "PushSubscriptionView_post any_url 9 colleague_request [old_device]
     = (Inl (ValidationError ''push subscription with this endpoint already exists.''),
        [old_device])
   \<and> sub_user old_device = 1 \<and> \<not> is_active old_device"
  by (simp add: PushSubscriptionView_post_def subscription_is_valid_def colleague_request_def
      old_device_def device_def any_url_def strip_def is_space_def)

end
